theory Spec2Isabelle
  imports Main
begin

section \<open>Python values used by project_collector.py\<close>

text \<open>
  Strings are lists of characters (ASCII text). A dictionary is an association list in
  insertion order whose keys are distinct: iterating a dictionary visits the entries in
  list order, \<open>d[k]\<close> and \<open>d.get(k)\<close> are \<open>map_of d k\<close>.
  Exceptions are values of type \<open>error\<close>; a computation that may raise returns
  \<open>error + 'a\<close> with \<open>Inl\<close> for the exception.
\<close>

datatype error =
    ValueError string
  | LibraryError string

type_synonym ('k, 'v) dict = "('k \<times> 'v) list"

definition newline :: char where
  "newline = CHR 0x0A"

text \<open>\<open>str.lower()\<close> on ASCII text: the letters A to Z are replaced, all else is kept.\<close>

definition lower_char :: "char \<Rightarrow> char" where
  "lower_char c =
     (case map_of (zip ''ABCDEFGHIJKLMNOPQRSTUVWXYZ'' ''abcdefghijklmnopqrstuvwxyz'') c of
        None \<Rightarrow> c
      | Some d \<Rightarrow> d)"

definition lower :: "string \<Rightarrow> string" where
  "lower s = map lower_char s"

text \<open>
  \<open>str.isspace()\<close> of one ASCII character: tab, line feed, vertical tab, form feed,
  carriage return, the four separators 0x1C to 0x1F, and the space.
\<close>

definition is_space :: "char \<Rightarrow> bool" where
  "is_space c \<longleftrightarrow>
     c \<in> set [CHR 0x09, CHR 0x0A, CHR 0x0B, CHR 0x0C, CHR 0x0D,
              CHR 0x1C, CHR 0x1D, CHR 0x1E, CHR 0x1F, CHR 0x20]"

text \<open>\<open>s.strip()\<close>: leading and trailing whitespace removed.\<close>

definition strip :: "string \<Rightarrow> string" where
  "strip s = rev (dropWhile is_space (rev (dropWhile is_space s)))"

text \<open>\<open>s.split(sep)\<close> for a one-character separator: always at least one piece.\<close>

fun split_on :: "char \<Rightarrow> string \<Rightarrow> string list" where
  "split_on sep [] = [[]]"
| "split_on sep (c # cs) =
     (if c = sep then [] # split_on sep cs
      else (case split_on sep cs of
              [] \<Rightarrow> [[c]]
            | l # ls \<Rightarrow> (c # l) # ls))"

text \<open>\<open>sep.join(pieces)\<close>.\<close>

fun join :: "string \<Rightarrow> string list \<Rightarrow> string" where
  "join sep [] = []"
| "join sep [l] = l"
| "join sep (l # ls) = l @ sep @ join sep ls"

text \<open>\<open>sub in s\<close> on strings: \<open>sub\<close> occurs in \<open>s\<close> as a contiguous run.\<close>

fun contains :: "string \<Rightarrow> string \<Rightarrow> bool" where
  "contains [] sub = (sub = [])"
| "contains (c # cs) sub = (take (length sub) (c # cs) = sub \<or> contains cs sub)"

text \<open>\<open>s.endswith(suf)\<close>.\<close>

definition endswith :: "string \<Rightarrow> string \<Rightarrow> bool" where
  "endswith s suf \<longleftrightarrow> length suf \<le> length s \<and> drop (length s - length suf) s = suf"

section \<open>Comment stripping: clean_content\<close>

text \<open>
  \<open>re.match(pattern, line, re.MULTILINE | re.DOTALL)\<close> is a call into the regular
  expression library; \<open>clean_content\<close> only tests its result for truth. The matcher is a
  parameter \<open>re_match\<close> of the model: it returns whether a match object was produced, or
  the exception the library raised (a pattern it cannot compile). The type \<open>'p\<close> is the
  type of patterns.

  The inner loop over the patterns stops at the first pattern that matches.
\<close>

fun is_comment :: "('p \<Rightarrow> string \<Rightarrow> error + bool) \<Rightarrow> 'p list \<Rightarrow> string \<Rightarrow> error + bool" where
  "is_comment re_match [] line = Inr False"
| "is_comment re_match (pattern # patterns) line =
     (case re_match pattern line of
        Inl e \<Rightarrow> Inl e
      | Inr True \<Rightarrow> Inr True
      | Inr False \<Rightarrow> is_comment re_match patterns line)"

text \<open>
  The outer loop over the lines, with the list \<open>cleaned_lines\<close> it appends to: a line
  that is no comment is appended, a comment line is appended only when it is blank.
\<close>

fun clean_lines ::
  "('p \<Rightarrow> string \<Rightarrow> error + bool) \<Rightarrow> 'p list \<Rightarrow> string list \<Rightarrow> string list
     \<Rightarrow> error + string list" where
  "clean_lines re_match patterns [] cleaned_lines = Inr cleaned_lines"
| "clean_lines re_match patterns (line # lines) cleaned_lines =
     (case is_comment re_match patterns line of
        Inl e \<Rightarrow> Inl e
      | Inr c \<Rightarrow>
          if \<not> c then clean_lines re_match patterns lines (cleaned_lines @ [line])
          else if strip line = [] then clean_lines re_match patterns lines (cleaned_lines @ [line])
          else clean_lines re_match patterns lines cleaned_lines)"

definition clean_content ::
  "('p \<Rightarrow> string \<Rightarrow> error + bool) \<Rightarrow> string \<Rightarrow> string \<Rightarrow> (string, 'p list) dict
     \<Rightarrow> error + string" where
  "clean_content re_match content language comment_patterns =
     (if comment_patterns = [] then Inr content
      else
        let patterns = (case map_of comment_patterns language of None \<Rightarrow> [] | Some ps \<Rightarrow> ps) in
        if patterns = [] then Inr content
        else
          (case clean_lines re_match patterns (split_on newline content) [] of
             Inl e \<Rightarrow> Inl e
           | Inr cleaned_lines \<Rightarrow> Inr (join [newline] cleaned_lines)))"


section \<open>Dictionaries\<close>

text \<open>\<open>d[k] = v\<close>: an existing key keeps its place in the iteration order, a new key is added last.\<close>

fun dict_set :: "('k, 'v) dict \<Rightarrow> 'k \<Rightarrow> 'v \<Rightarrow> ('k, 'v) dict" where
  "dict_set [] k v = [(k, v)]"
| "dict_set ((k', v') # d) k v =
     (if k' = k then (k, v) # d else (k', v') # dict_set d k v)"

text \<open>The loop \<open>for k, v in items: d[k] = v\<close>.\<close>

fun dict_update :: "('k, 'v) dict \<Rightarrow> ('k \<times> 'v) list \<Rightarrow> ('k, 'v) dict" where
  "dict_update d [] = d"
| "dict_update d ((k, v) # items) = dict_update (dict_set d k v) items"

section \<open>Paths\<close>

text \<open>
  A \<open>pathlib\<close> path on a POSIX system: whether it starts at the root, and its components in
  order. Parsing drops empty components and \<open>.\<close>; a component \<open>..\<close> is kept as it is.
\<close>

record path =
  absolute :: bool
  segments :: "string list"

definition Path :: "string \<Rightarrow> path" where
  "Path s = \<lparr>absolute = (take 1 s = ''/''),
             segments = filter (\<lambda>x. x \<noteq> [] \<and> x \<noteq> ''.'') (split_on (CHR ''/'') s)\<rparr>"

text \<open>\<open>str(p)\<close>.\<close>

definition path_str :: "path \<Rightarrow> string" where
  "path_str p =
     (if absolute p then ''/'' @ join ''/'' (segments p)
      else if segments p = [] then ''.''
      else join ''/'' (segments p))"

text \<open>\<open>p / s\<close>: an absolute right operand replaces the left one.\<close>

definition path_join :: "path \<Rightarrow> string \<Rightarrow> path" where
  "path_join p s =
     (if absolute (Path s) then Path s
      else \<lparr>absolute = absolute p, segments = segments p @ segments (Path s)\<rparr>)"

text \<open>\<open>p.name\<close>: the last component, the empty string when there is none.\<close>

definition path_name :: "path \<Rightarrow> string" where
  "path_name p = (if segments p = [] then [] else last (segments p))"

text \<open>\<open>s.rfind(c)\<close>: the index of the last occurrence, \<open>None\<close> for Python's -1.\<close>

definition rfind :: "char \<Rightarrow> string \<Rightarrow> nat option" where
  "rfind c s =
     (if c \<in> set s then Some (length s - 1 - length (takeWhile (\<lambda>x. x \<noteq> c) (rev s)))
      else None)"

text \<open>
  \<open>p.suffix\<close>: the name from its last dot on, when that dot is neither the first nor the
  last character of the name; the empty string otherwise.
\<close>

definition path_suffix :: "path \<Rightarrow> string" where
  "path_suffix p =
     (let name = path_name p in
      case rfind (CHR ''.'') name of
        None \<Rightarrow> []
      | Some i \<Rightarrow> if 0 < i \<and> i < length name - 1 then drop i name else [])"

text \<open>
  \<open>p.relative_to(other)\<close>: the comparison is on the components as written, nothing is
  resolved. It raises ValueError when \<open>other\<close> is not a prefix of \<open>p\<close>, or when one path
  is absolute and the other is not.
\<close>

definition relative_to :: "path \<Rightarrow> path \<Rightarrow> error + path" where
  "relative_to p other =
     (if absolute p = absolute other \<and>
         take (length (segments other)) (segments p) = segments other
      then Inr \<lparr>absolute = False, segments = drop (length (segments other)) (segments p)\<rparr>
      else Inl (ValueError ([CHR 0x27] @ path_str p @ [CHR 0x27] @ '' is not in the subpath of ''
             @ [CHR 0x27] @ path_str other @ [CHR 0x27]
             @ '' OR one path is relative and the other is absolute.'')))"

section \<open>Default tables\<close>

definition get_default_language_mappings :: "(string, string) dict" where
  "get_default_language_mappings =
     [(''.py'', ''python''), (''.pyw'', ''python''), (''.pyx'', ''python''),
      (''.rb'', ''ruby''), (''.rbw'', ''ruby''),
      (''.erb'', ''erb''), (''.html.erb'', ''erb''), (''.js.erb'', ''erb''), (''.css.erb'', ''erb''),
      (''.html'', ''html''), (''.htm'', ''html''), (''.jinja'', ''html''), (''.jinja2'', ''html''),
      (''.j2'', ''html''), (''.django'', ''html''),
      (''.js'', ''javascript''), (''.jsx'', ''jsx''), (''.ts'', ''typescript''), (''.tsx'', ''tsx''),
      (''.vue'', ''vue''),
      (''.css'', ''css''), (''.scss'', ''scss''), (''.sass'', ''sass''), (''.less'', ''less''),
      (''.json'', ''json''), (''.yaml'', ''yaml''), (''.yml'', ''yaml''), (''.toml'', ''toml''),
      (''.ini'', ''ini''), (''.cfg'', ''ini''), (''.conf'', ''bash''),
      (''.sh'', ''bash''), (''.bash'', ''bash''), (''.zsh'', ''zsh''), (''.fish'', ''fish''),
      (''.sql'', ''sql''),
      (''.md'', ''markdown''), (''.txt'', ''text''), (''.rst'', ''rst''),
      (''dockerfile'', ''dockerfile''), (''.dockerfile'', ''dockerfile''),
      (''.xml'', ''xml''), (''.csv'', ''csv''), (''.log'', ''text'')]"

definition get_default_exclude_patterns :: "string list" where
  "get_default_exclude_patterns =
     [''.keep'', ''.gitkeep'', ''.DS_Store'', ''Thumbs.db'', ''.tmp'', ''.temp'']"

section \<open>Language classification: get_language_for_file\<close>

text \<open>
  The first loop: over the keys of the table in iteration order, returning the entry of the
  first key that is longer than one character and that the lowercased file name ends with.
  \<open>None\<close> stands for the loop running to its end.
\<close>

fun compound_pass :: "string \<Rightarrow> (string, string) dict \<Rightarrow> string option" where
  "compound_pass full_name [] = None"
| "compound_pass full_name ((ext, language) # rest) =
     (if endswith full_name (lower ext) \<and> length ext > 1 then Some language
      else compound_pass full_name rest)"

definition get_language_for_file :: "path \<Rightarrow> string \<Rightarrow> (string, string) dict \<Rightarrow> string" where
  "get_language_for_file filepath default_language language_mappings =
     (let full_name = lower (path_name filepath) in
      case compound_pass full_name language_mappings of
        Some language \<Rightarrow> language
      | None \<Rightarrow>
          (let extension = lower (path_suffix filepath) in
           case map_of language_mappings extension of
             Some language \<Rightarrow> language
           | None \<Rightarrow>
               (let filename = lower (path_name filepath) in
                case map_of language_mappings filename of
                  Some language \<Rightarrow> language
                | None \<Rightarrow> default_language)))"

section \<open>Exclusion: should_exclude_file\<close>

definition should_exclude_file :: "path \<Rightarrow> string list \<Rightarrow> bool" where
  "should_exclude_file filepath exclude_patterns =
     (let filename = lower (path_name filepath) in
      list_ex (\<lambda>pattern. contains filename (lower pattern)) exclude_patterns)"

section \<open>The file system and the two output streams\<close>

text \<open>
  What the operating system holds at a location: a regular file with the text that reading
  it in text mode yields, a file that exists and cannot be opened, or a directory.
\<close>

datatype node = File string | Unreadable | Directory

text \<open>
  The state a run works on. \<open>files\<close> maps a location (the components of an absolute path
  without \<open>..\<close>) to what is there; the model has no symbolic links. \<open>stdout\<close> holds the
  printed lines, one entry for each call of \<open>print\<close>; \<open>markdown\<close> holds the strings written
  to the open output document, one entry for each call of \<open>write\<close>. \<open>cwd\<close> and \<open>home\<close> are
  the working directory and the home directory, \<open>time_minute\<close> and \<open>time_second\<close> the
  current time as \<open>strftime\<close> prints it with the two formats the program uses.
\<close>

record world =
  files :: "(string list, node) dict"
  cwd :: "string list"
  home :: string
  time_minute :: string
  time_second :: string
  stdout :: "string list"
  markdown :: "string list"

definition print :: "string \<Rightarrow> world \<Rightarrow> world" where
  "print s w = w\<lparr>stdout := stdout w @ [s]\<rparr>"

definition write_md :: "string \<Rightarrow> world \<Rightarrow> world" where
  "write_md s w = w\<lparr>markdown := markdown w @ [s]\<rparr>"

definition node_at :: "(string list, node) dict \<Rightarrow> string list \<Rightarrow> node option" where
  "node_at fs loc = (if loc = [] then Some Directory else map_of fs loc)"

text \<open>
  How the system resolves the components of a path from a starting location: every step
  leaves a directory, \<open>..\<close> goes to the parent. The result is the location reached, when
  something is there.
\<close>

fun locate :: "(string list, node) dict \<Rightarrow> string list \<Rightarrow> string list \<Rightarrow> string list option" where
  "locate fs cur [] = (if node_at fs cur = None then None else Some cur)"
| "locate fs cur (s # rest) =
     (if node_at fs cur = Some Directory
      then locate fs (if s = ''..'' then butlast cur else cur @ [s]) rest
      else None)"

definition location :: "world \<Rightarrow> path \<Rightarrow> string list option" where
  "location w p = locate (files w) (if absolute p then [] else cwd w) (segments p)"

definition lookup :: "world \<Rightarrow> path \<Rightarrow> node option" where
  "lookup w p = (case location w p of None \<Rightarrow> None | Some loc \<Rightarrow> node_at (files w) loc)"

definition exists :: "world \<Rightarrow> path \<Rightarrow> bool" where
  "exists w p \<longleftrightarrow> lookup w p \<noteq> None"

definition is_dir :: "world \<Rightarrow> path \<Rightarrow> bool" where
  "is_dir w p \<longleftrightarrow> lookup w p = Some Directory"

definition is_file :: "world \<Rightarrow> path \<Rightarrow> bool" where
  "is_file w p \<longleftrightarrow> (case lookup w p of Some (File c) \<Rightarrow> True | Some Unreadable \<Rightarrow> True | _ \<Rightarrow> False)"

text \<open>\<open>open(p, 'r').read()\<close>: the text, or the OSError that \<open>open\<close> raises.\<close>

definition read_text :: "world \<Rightarrow> path \<Rightarrow> error + string" where
  "read_text w p =
     (case lookup w p of
        Some (File c) \<Rightarrow> Inr c
      | Some Unreadable \<Rightarrow> Inl (LibraryError (''Permission denied: '' @ path_str p))
      | Some Directory \<Rightarrow> Inl (LibraryError (''Is a directory: '' @ path_str p))
      | None \<Rightarrow> Inl (LibraryError (''No such file or directory: '' @ path_str p)))"

text \<open>\<open>p.resolve()\<close>: the absolute path with \<open>..\<close> removed.\<close>

fun normalize :: "string list \<Rightarrow> string list \<Rightarrow> string list" where
  "normalize cur [] = cur"
| "normalize cur (s # rest) = normalize (if s = ''..'' then butlast cur else cur @ [s]) rest"

definition resolve :: "world \<Rightarrow> path \<Rightarrow> path" where
  "resolve w p =
     \<lparr>absolute = True, segments = normalize (if absolute p then [] else cwd w) (segments p)\<rparr>"

text \<open>
  \<open>p.rglob("*")\<close>: a path for everything below the directory \<open>p\<close>, in the order the file
  system lists it (here the order of \<open>files\<close>).
\<close>

definition rglob :: "world \<Rightarrow> path \<Rightarrow> path list" where
  "rglob w p =
     (case location w p of
        None \<Rightarrow> []
      | Some dir \<Rightarrow>
          map (\<lambda>loc. \<lparr>absolute = absolute p, segments = segments p @ drop (length dir) loc\<rparr>)
            (filter (\<lambda>loc. length dir < length loc \<and> take (length dir) loc = dir)
               (map fst (files w))))"

text \<open>\<open>os.path.expanduser(s)\<close> for \<open>~\<close> and \<open>~/...\<close>, and \<open>os.path.isabs(s)\<close>.\<close>

definition expanduser :: "world \<Rightarrow> string \<Rightarrow> string" where
  "expanduser w s = (if s = ''~'' \<or> take 2 s = ''~/'' then home w @ drop 1 s else s)"

definition isabs :: "string \<Rightarrow> bool" where
  "isabs s \<longleftrightarrow> take 1 s = ''/''"

section \<open>Writing one file: process_file\<close>

record 'p filtering_config =
  exclude_files :: bool
  clean_comments :: bool
  exclude_patterns :: "string list"
  comment_patterns :: "(string, 'p list) dict"

text \<open>\<open>str(e)\<close> of an exception.\<close>

fun error_str :: "error \<Rightarrow> string" where
  "error_str (ValueError m) = m"
| "error_str (LibraryError m) = m"

text \<open>The section that process_file writes for one file.\<close>

definition section_text :: "path \<Rightarrow> string \<Rightarrow> string \<Rightarrow> string" where
  "section_text relative_path file_language content =
     ''### '' @ path_str relative_path @ [newline] @ ''```'' @ file_language @ [newline]
       @ content @ [newline] @ ''```'' @ [newline, newline] @ ''---'' @ [newline, newline]"

text \<open>
  The body of the \<open>try\<close> statement: \<open>Inl\<close> is an exception that reaches the handler. Nothing
  is printed or written before the point where an exception can be raised.
\<close>

definition process_file_try ::
  "('p \<Rightarrow> string \<Rightarrow> error + bool) \<Rightarrow> path \<Rightarrow> path \<Rightarrow> string \<Rightarrow> (string, string) dict
     \<Rightarrow> 'p filtering_config \<Rightarrow> world \<Rightarrow> error + world" where
  "process_file_try re_match filepath project_root default_language language_mappings
       filtering_config w =
     (let file_language = get_language_for_file filepath default_language language_mappings in
      case read_text w filepath of
        Inl e \<Rightarrow> Inl e
      | Inr raw \<Rightarrow>
          (case (if clean_comments filtering_config
                 then clean_content re_match raw file_language (comment_patterns filtering_config)
                 else Inr raw) of
             Inl e \<Rightarrow> Inl e
           | Inr content \<Rightarrow>
               if strip content = []
               then Inr (print (''Skipped empty file after cleaning: '' @ path_str filepath) w)
               else
                 (case relative_to filepath project_root of
                    Inl e \<Rightarrow> Inl e
                  | Inr relative_path \<Rightarrow>
                      Inr (write_md (section_text relative_path file_language content) w))))"

definition process_file ::
  "('p \<Rightarrow> string \<Rightarrow> error + bool) \<Rightarrow> path \<Rightarrow> path \<Rightarrow> string \<Rightarrow> (string, string) dict
     \<Rightarrow> 'p filtering_config \<Rightarrow> world \<Rightarrow> world" where
  "process_file re_match filepath project_root default_language language_mappings
       filtering_config w =
     (if \<not> exists w filepath then print (''File not found: '' @ path_str filepath) w
      else if exclude_files filtering_config
              \<and> should_exclude_file filepath (exclude_patterns filtering_config)
      then print (''Excluded file: '' @ path_str filepath) w
      else
        (case process_file_try re_match filepath project_root default_language
                language_mappings filtering_config w of
           Inl e \<Rightarrow>
             print (''Error reading file '' @ path_str filepath @ '': '' @ error_str e) w
         | Inr w' \<Rightarrow> w'))"

section \<open>Walking one entry of the file list: process_path\<close>

text \<open>The loop over \<open>rglob\<close>: every regular file below the directory is processed.\<close>

fun process_files ::
  "('p \<Rightarrow> string \<Rightarrow> error + bool) \<Rightarrow> path list \<Rightarrow> path \<Rightarrow> string \<Rightarrow> (string, string) dict
     \<Rightarrow> 'p filtering_config \<Rightarrow> world \<Rightarrow> world" where
  "process_files re_match [] project_root default_language language_mappings filtering_config w = w"
| "process_files re_match (file # rest) project_root default_language language_mappings
       filtering_config w =
     process_files re_match rest project_root default_language language_mappings filtering_config
       (if is_file w file
        then process_file re_match file project_root default_language language_mappings
               filtering_config w
        else w)"

definition process_path ::
  "('p \<Rightarrow> string \<Rightarrow> error + bool) \<Rightarrow> string \<Rightarrow> path \<Rightarrow> string \<Rightarrow> (string, string) dict
     \<Rightarrow> 'p filtering_config \<Rightarrow> world \<Rightarrow> world" where
  "process_path re_match item_path project_root default_language language_mappings
       filtering_config w =
     (let item_path_expanded = expanduser w item_path;
          full_path = (if \<not> isabs item_path_expanded
                       then path_join project_root item_path_expanded
                       else Path item_path_expanded) in
      if is_dir w full_path then
        process_files re_match (rglob w full_path) project_root default_language
          language_mappings filtering_config
          (print (''Processing directory: '' @ path_str full_path) w)
      else if is_file w full_path then
        process_file re_match full_path project_root default_language language_mappings
          filtering_config (print (''Processing file: '' @ path_str full_path) w)
      else print (''Path not found: '' @ path_str full_path) w)"

section \<open>Configuration\<close>

text \<open>
  A parsed configuration file: for each section name, the items that the section's
  \<open>items()\<close> yields, in order (the section's own entries and those it inherits from the
  section \<open>[DEFAULT]\<close>, with the values as \<open>get\<close> returns them). Parsing the text is the
  work of the library's \<open>ConfigParser\<close>:
  the parser is a parameter \<open>parse_ini\<close>, which returns the sections or the exception raised.
  \<open>config.read(path)\<close> skips a file that it cannot open and leaves the configuration empty.
\<close>

type_synonym ini = "(string, (string, string) dict) dict"

definition config_read :: "(string \<Rightarrow> error + ini) \<Rightarrow> world \<Rightarrow> path \<Rightarrow> error + ini" where
  "config_read parse_ini w config_path =
     (case read_text w config_path of
        Inl e \<Rightarrow> Inr []
      | Inr text \<Rightarrow> parse_ini text)"

text \<open>
  How \<open>ConfigParser\<close> forms the items of a section from the file: the file gives the
  entries of the section \<open>[DEFAULT]\<close> and, for each other section, the entries written
  under it. The items of a section are its own entries, followed by the entries of
  \<open>[DEFAULT]\<close> whose keys the section does not have itself.
\<close>

record raw_ini =
  defaults :: "(string, string) dict"
  sections :: "(string, (string, string) dict) dict"

definition inherit :: "(string, string) dict \<Rightarrow> (string, string) dict \<Rightarrow> (string, string) dict" where
  "inherit own dflt = own @ filter (\<lambda>(k, v). map_of own k = None) dflt"

definition section_views :: "raw_ini \<Rightarrow> ini" where
  "section_views raw = map (\<lambda>(name, own). (name, inherit own (defaults raw))) (sections raw)"

definition backslash :: string where
  "backslash = [CHR 0x5C]"

definition three_double_quotes :: string where
  "three_double_quotes = [CHR 0x22, CHR 0x22, CHR 0x22]"

definition three_single_quotes :: string where
  "three_single_quotes = [CHR 0x27, CHR 0x27, CHR 0x27]"

definition get_default_comment_patterns :: "(string, string list) dict" where
  "get_default_comment_patterns =
     [(''python'',
         [''^#.*$'',
          ''^'' @ backslash @ ''s*'' @ three_double_quotes @ ''.*?'' @ three_double_quotes
            @ backslash @ ''s*$'',
          ''^'' @ backslash @ ''s*'' @ three_single_quotes @ ''.*?'' @ three_single_quotes
            @ backslash @ ''s*$'']),
      (''ruby'', [''^#.*$'', ''^'' @ backslash @ ''s*=begin.*?=end'' @ backslash @ ''s*$'']),
      (''javascript'',
         [''^//.*$'',
          ''^'' @ backslash @ ''s*/'' @ backslash @ ''*.*?'' @ backslash @ ''*/'' @ backslash
            @ ''s*$'']),
      (''css'',
         [''^'' @ backslash @ ''s*/'' @ backslash @ ''*.*?'' @ backslash @ ''*/'' @ backslash
            @ ''s*$'']),
      (''html'', [''^'' @ backslash @ ''s*<!--.*?-->'' @ backslash @ ''s*$'']),
      (''sql'',
         [''^--.*$'',
          ''^'' @ backslash @ ''s*/'' @ backslash @ ''*.*?'' @ backslash @ ''*/'' @ backslash
            @ ''s*$'']),
      (''bash'', [''^#.*$'']),
      (''yaml'', [''^#.*$'']),
      (''ini'', [''^[#;].*$'']),
      (''erb'', [''^#.*$'', ''^'' @ backslash @ ''s*<!--.*?-->'' @ backslash @ ''s*$''])]"

definition read_ini_config ::
  "(string \<Rightarrow> error + ini) \<Rightarrow> world \<Rightarrow> path \<Rightarrow> error + (string, string) dict" where
  "read_ini_config parse_ini w config_path =
     (case config_read parse_ini w config_path of
        Inl e \<Rightarrow> Inl e
      | Inr config \<Rightarrow>
          (case map_of config ''Settings'' of
             None \<Rightarrow> Inl (ValueError ''Missing 'Settings' section in config.ini file'')
           | Some settings \<Rightarrow>
               (case map_of settings ''project_root'' of
                  None \<Rightarrow> Inr settings
                | Some v \<Rightarrow> Inr (dict_set settings ''project_root'' (expanduser w v)))))"

definition read_language_mappings ::
  "(string \<Rightarrow> error + ini) \<Rightarrow> world \<Rightarrow> path \<Rightarrow> error + (string, string) dict" where
  "read_language_mappings parse_ini w config_path =
     (case config_read parse_ini w config_path of
        Inl e \<Rightarrow> Inl e
      | Inr config \<Rightarrow>
          (let mappings = get_default_language_mappings in
           case map_of config ''LanguageMappings'' of
             None \<Rightarrow> Inr mappings
           | Some items \<Rightarrow> Inr (dict_update mappings items)))"

text \<open>
  \<open>section.getboolean(option, fallback)\<close>: the fallback when the option is missing,
  ValueError when its value is none of the eight words.
\<close>

definition getboolean :: "(string, string) dict \<Rightarrow> string \<Rightarrow> bool \<Rightarrow> error + bool" where
  "getboolean section option fallback =
     (case map_of section option of
        None \<Rightarrow> Inr fallback
      | Some v \<Rightarrow>
          if lower v \<in> set [''1'', ''yes'', ''true'', ''on''] then Inr True
          else if lower v \<in> set [''0'', ''no'', ''false'', ''off''] then Inr False
          else Inl (ValueError (''Not a boolean: '' @ v)))"

text \<open>The patterns of one entry of \<open>[CommentPatterns]\<close>: split at \<open>|\<close> and \<open>,\<close>, trimmed.\<close>

definition split_patterns :: "string \<Rightarrow> string list" where
  "split_patterns patterns_str =
     map strip
       (filter (\<lambda>p. strip p \<noteq> [])
          (split_on (CHR '','')
             (map (\<lambda>c. if c = CHR ''|'' then CHR '','' else c) patterns_str)))"

fun custom_comment_patterns ::
  "(string, string list) dict \<Rightarrow> (string \<times> string) list \<Rightarrow> (string, string list) dict" where
  "custom_comment_patterns table [] = table"
| "custom_comment_patterns table ((lang, patterns_str) # items) =
     (let patterns = split_patterns patterns_str in
      custom_comment_patterns
        (if patterns \<noteq> [] then dict_set table lang patterns else table)
        items)"

definition read_filtering_config ::
  "(string \<Rightarrow> error + ini) \<Rightarrow> world \<Rightarrow> path \<Rightarrow> error + string filtering_config" where
  "read_filtering_config parse_ini w config_path =
     (case config_read parse_ini w config_path of
        Inl e \<Rightarrow> Inl e
      | Inr config \<Rightarrow>
          (case (case map_of config ''Filtering'' of
                   None \<Rightarrow> Inr (True, True)
                 | Some filtering \<Rightarrow>
                     (case getboolean filtering ''exclude_files'' True of
                        Inl e \<Rightarrow> Inl e
                      | Inr ef \<Rightarrow>
                          (case getboolean filtering ''clean_comments'' True of
                             Inl e \<Rightarrow> Inl e
                           | Inr cc \<Rightarrow> Inr (ef, cc)))) of
             Inl e \<Rightarrow> Inl e
           | Inr (ef, cc) \<Rightarrow>
               Inr \<lparr>exclude_files = ef,
                    clean_comments = cc,
                    exclude_patterns =
                      (case map_of config ''ExcludePatterns'' of
                         None \<Rightarrow> get_default_exclude_patterns
                       | Some items \<Rightarrow>
                           (let custom_patterns = map snd items in
                            if custom_patterns \<noteq> [] then custom_patterns
                            else get_default_exclude_patterns)),
                    comment_patterns =
                      (case map_of config ''CommentPatterns'' of
                         None \<Rightarrow> get_default_comment_patterns
                       | Some items \<Rightarrow>
                           custom_comment_patterns get_default_comment_patterns items)\<rparr>))"

section \<open>The file list\<close>

definition read_file_list :: "world \<Rightarrow> path \<Rightarrow> error + string list" where
  "read_file_list w file_list_path =
     (case read_text w file_list_path of
        Inl e \<Rightarrow> Inl e
      | Inr text \<Rightarrow>
          Inr (map strip
                 (filter (\<lambda>line. strip line \<noteq> [] \<and> take 1 (strip line) \<noteq> ''#'')
                    (split_on newline text))))"

section \<open>The run: main\<close>

record args =
  arg_project_dir :: string
  arg_language :: "string option"

definition generate_output_filename :: "world \<Rightarrow> path \<Rightarrow> string" where
  "generate_output_filename w project_dir = path_name project_dir @ ''_'' @ time_minute w @ ''.md''"

text \<open>
  \<open>open(path, 'w')\<close>: the file is created empty, or emptied, and the location it is at is
  returned; the exception when the path cannot be opened for writing. Closing the document
  stores what was written; until then the file system shows the document as an empty file.
\<close>

definition open_write :: "world \<Rightarrow> path \<Rightarrow> error + (string list \<times> world)" where
  "open_write w p =
     (if segments p = [] \<or> last (segments p) = ''..''
      then Inl (LibraryError (''Is a directory: '' @ path_str p))
      else
        (case locate (files w) (if absolute p then [] else cwd w) (butlast (segments p)) of
           None \<Rightarrow> Inl (LibraryError (''No such file or directory: '' @ path_str p))
         | Some dir \<Rightarrow>
             if node_at (files w) dir \<noteq> Some Directory
             then Inl (LibraryError (''Not a directory: '' @ path_str p))
             else
               (case node_at (files w) (dir @ [last (segments p)]) of
                  Some Directory \<Rightarrow> Inl (LibraryError (''Is a directory: '' @ path_str p))
                | Some Unreadable \<Rightarrow> Inl (LibraryError (''Permission denied: '' @ path_str p))
                | _ \<Rightarrow>
                    Inr (dir @ [last (segments p)],
                         w\<lparr>files := dict_set (files w) (dir @ [last (segments p)]) (File []),
                            markdown := []\<rparr>))))"

definition close_md :: "string list \<Rightarrow> world \<Rightarrow> world" where
  "close_md loc w = w\<lparr>files := dict_set (files w) loc (File (concat (markdown w)))\<rparr>"

text \<open>\<open>str(n)\<close> of a natural number, and \<open>str(b)\<close> of a truth value.\<close>

fun str_nat :: "nat \<Rightarrow> string" where
  "str_nat n =
     (if n < 10 then [''0123456789'' ! n]
      else str_nat (n div 10) @ [''0123456789'' ! (n mod 10)])"

definition str_bool :: "bool \<Rightarrow> string" where
  "str_bool b = (if b then ''True'' else ''False'')"

text \<open>
  How a piece of the run ends: it runs to its end, an exception leaves it, or \<open>exit(n)\<close>
  was called (\<open>SystemExit\<close> is no \<open>Exception\<close>: the handler of main lets it pass).
\<close>

datatype outcome = Completed | Raised error | SystemExit nat

text \<open>The loop of main over the entries of the file list.\<close>

fun process_items ::
  "(string \<Rightarrow> string \<Rightarrow> error + bool) \<Rightarrow> string list \<Rightarrow> path \<Rightarrow> string \<Rightarrow> (string, string) dict
     \<Rightarrow> string filtering_config \<Rightarrow> world \<Rightarrow> world" where
  "process_items re_match [] project_root default_language language_mappings filtering_config w = w"
| "process_items re_match (item # rest) project_root default_language language_mappings
       filtering_config w =
     process_items re_match rest project_root default_language language_mappings filtering_config
       (process_path re_match item project_root default_language language_mappings
          filtering_config w)"

text \<open>The part of main from the nine lines it prints before the output file is opened.\<close>

definition generate ::
  "(string \<Rightarrow> string \<Rightarrow> error + bool) \<Rightarrow> path \<Rightarrow> path \<Rightarrow> string \<Rightarrow> (string, string) dict
     \<Rightarrow> string filtering_config \<Rightarrow> string list \<Rightarrow> world \<Rightarrow> outcome \<times> world" where
  "generate re_match project_dir project_root default_language language_mappings
       filtering_config files_and_dirs w =
     (let output_filename = generate_output_filename w project_dir;
          output_path = path_join project_dir output_filename;
          w1 = print ''Generating project log...'' w;
          w2 = print (''Project directory: '' @ path_str project_dir) w1;
          w3 = print (''Project root: '' @ path_str project_root) w2;
          w4 = print (''Default language: '' @ default_language) w3;
          w5 = print (''Exclude files: '' @ str_bool (exclude_files filtering_config)) w4;
          w6 = print (''Clean comments: '' @ str_bool (clean_comments filtering_config)) w5;
          w7 = print (''Output file: '' @ path_str output_path) w6;
          w8 = print (''Files to process: '' @ str_nat (length files_and_dirs)) w7;
          w9 = print [] w8 in
      case open_write w9 output_path of
        Inl e \<Rightarrow> (Raised e, w9)
      | Inr (loc, w10) \<Rightarrow>
          (let w11 = write_md (''# Project: '' @ path_name project_dir @ [newline, newline]) w10;
               w12 = write_md (''# Generated: '' @ time_second w11 @ [newline]) w11;
               w13 = process_items re_match files_and_dirs project_root default_language
                       language_mappings filtering_config w12;
               w14 = close_md loc w13 in
           (Completed,
            print ([newline] @ ''Project log successfully generated: '' @ path_str output_path)
              w14)))"

text \<open>The body of the \<open>try\<close> statement of main.\<close>

definition main_try ::
  "(string \<Rightarrow> string \<Rightarrow> error + bool) \<Rightarrow> (string \<Rightarrow> error + ini) \<Rightarrow> args \<Rightarrow> path \<Rightarrow> path
     \<Rightarrow> path \<Rightarrow> world \<Rightarrow> outcome \<times> world" where
  "main_try re_match parse_ini a project_dir config_file file_list_file w =
     (case read_ini_config parse_ini w config_file of
        Inl e \<Rightarrow> (Raised e, w)
      | Inr config \<Rightarrow>
          (let default_language =
                 (if arg_language a \<noteq> None \<and> arg_language a \<noteq> Some []
                  then the (arg_language a)
                  else (case map_of config ''default_language'' of
                          Some l \<Rightarrow> l
                        | None \<Rightarrow> ''text'')) in
           case read_language_mappings parse_ini w config_file of
             Inl e \<Rightarrow> (Raised e, w)
           | Inr language_mappings \<Rightarrow>
               (case read_filtering_config parse_ini w config_file of
                  Inl e \<Rightarrow> (Raised e, w)
                | Inr filtering_config \<Rightarrow>
                    (case map_of config ''project_root'' of
                       None \<Rightarrow>
                         (SystemExit 1,
                          print ''Error: 'project_root' not specified in config.ini'' w)
                     | Some root \<Rightarrow>
                         (let project_root = resolve w (Path root) in
                          if \<not> exists w project_root
                          then (SystemExit 1,
                                print (''Error: Project root directory ''
                                         @ [CHR 0x27] @ path_str project_root @ [CHR 0x27]
                                         @ '' not found.'') w)
                          else
                            (case read_file_list w file_list_file of
                               Inl e \<Rightarrow> (Raised e, w)
                             | Inr files_and_dirs \<Rightarrow>
                                 generate re_match project_dir project_root default_language
                                   language_mappings filtering_config files_and_dirs
                                   (if files_and_dirs = []
                                    then print ''Warning: File list is empty.'' w
                                    else w)))))))"

text \<open>main: the exit code of the process and the state it leaves.\<close>

definition main ::
  "(string \<Rightarrow> string \<Rightarrow> error + bool) \<Rightarrow> (string \<Rightarrow> error + ini) \<Rightarrow> args \<Rightarrow> world
     \<Rightarrow> nat \<times> world" where
  "main re_match parse_ini a w =
     (let project_dir = resolve w (Path (arg_project_dir a)) in
      if \<not> exists w project_dir \<or> \<not> is_dir w project_dir
      then (1, print (''Error: Project directory '' @ [CHR 0x27] @ path_str project_dir
                        @ [CHR 0x27] @ '' not found or is not a directory.'') w)
      else
        (let config_file = path_join project_dir ''config.ini'';
             file_list_file = path_join project_dir ''files.txt'' in
         if \<not> exists w config_file
         then (1, print ''Expected config.ini with [Settings] section.''
                    (print (''Error: Configuration file '' @ [CHR 0x27] @ path_str config_file
                              @ [CHR 0x27] @ '' not found.'') w))
         else if \<not> exists w file_list_file
         then (1, print ''Expected files.txt containing list of files and directories to include.''
                    (print (''Error: File list '' @ [CHR 0x27] @ path_str file_list_file
                              @ [CHR 0x27] @ '' not found.'') w))
         else
           (case main_try re_match parse_ini a project_dir config_file file_list_file w of
              (Completed, w') \<Rightarrow> (0, w')
            | (Raised e, w') \<Rightarrow> (1, print (''Error: '' @ error_str e) w')
            | (SystemExit n, w') \<Rightarrow> (n, w'))))"

section \<open>A model of re.match on parsed patterns\<close>

text \<open>
  The patterns the program's default table uses are built from single characters, the dot
  (any character, with \<open>re.DOTALL\<close>), \<open>\s\<close>, character sets, \<open>^\<close> and \<open>$\<close> (with
  \<open>re.MULTILINE\<close>: at the start of the text or after a line feed, at the end of the text or
  before a line feed), sequence, alternative and repetition (greedy or lazy: the two differ
  in which match is found, not in whether there is one). \<open>ends r s i\<close> lists the
  positions where a match of \<open>r\<close> that starts at position \<open>i\<close> of \<open>s\<close> can end. A repetition
  needs at most one round for each remaining character, since a round that consumes
  nothing reaches no new position.
\<close>

datatype regex =
    Lit char
  | AnyChar
  | Space
  | OneOf "char list"
  | Bol
  | Eol
  | Seq regex regex
  | Alt regex regex
  | Star regex

primrec star_ends :: "(nat \<Rightarrow> nat list) \<Rightarrow> nat \<Rightarrow> nat \<Rightarrow> nat list" where
  "star_ends step 0 i = [i]"
| "star_ends step (Suc fuel) i =
     i # concat (map (star_ends step fuel) (filter (\<lambda>j. i < j) (step i)))"

primrec ends :: "regex \<Rightarrow> string \<Rightarrow> nat \<Rightarrow> nat list" where
  "ends (Lit c) s i = (if i < length s \<and> s ! i = c then [Suc i] else [])"
| "ends AnyChar s i = (if i < length s then [Suc i] else [])"
| "ends Space s i = (if i < length s \<and> is_space (s ! i) then [Suc i] else [])"
| "ends (OneOf cs) s i = (if i < length s \<and> s ! i \<in> set cs then [Suc i] else [])"
| "ends Bol s i = (if i = 0 \<or> (i \<le> length s \<and> s ! (i - 1) = newline) then [i] else [])"
| "ends Eol s i = (if i = length s \<or> (i < length s \<and> s ! i = newline) then [i] else [])"
| "ends (Seq r1 r2) s i = concat (map (ends r2 s) (ends r1 s i))"
| "ends (Alt r1 r2) s i = ends r1 s i @ ends r2 s i"
| "ends (Star r) s i = star_ends (ends r s) (length s - i) i"

text \<open>
  \<open>re.match(pattern, line, flags)\<close> returns a match when some match starts at position 0,
  wherever it ends; \<open>re.fullmatch\<close> asks for a match that ends at the end of the line.
  A parsed pattern raises no exception.
\<close>

definition re_match_model :: "regex \<Rightarrow> string \<Rightarrow> error + bool" where
  "re_match_model pattern line = Inr (ends pattern line 0 \<noteq> [])"

definition re_fullmatch_model :: "regex \<Rightarrow> string \<Rightarrow> bool" where
  "re_fullmatch_model pattern line \<longleftrightarrow> length line \<in> set (ends pattern line 0)"

text \<open>The default pattern \<open>^#.*$\<close> in parsed form.\<close>

definition hash_comment_pattern :: regex where
  "hash_comment_pattern = Seq Bol (Seq (Lit (CHR ''#'')) (Seq (Star AnyChar) Eol))"

text \<open>
  What it means that the pattern \<open>r\<close> matches the piece of \<open>s\<close> from position \<open>i\<close> up to
  position \<open>j\<close>, stated as rules and without reference to how a match is searched for.
\<close>

inductive matches :: "string \<Rightarrow> regex \<Rightarrow> nat \<Rightarrow> nat \<Rightarrow> bool" for s :: string where
  matches_Lit: "i < length s \<Longrightarrow> s ! i = c \<Longrightarrow> matches s (Lit c) i (Suc i)"
| matches_AnyChar: "i < length s \<Longrightarrow> matches s AnyChar i (Suc i)"
| matches_Space: "i < length s \<Longrightarrow> is_space (s ! i) \<Longrightarrow> matches s Space i (Suc i)"
| matches_OneOf: "i < length s \<Longrightarrow> s ! i \<in> set cs \<Longrightarrow> matches s (OneOf cs) i (Suc i)"
| matches_Bol: "i = 0 \<or> (i \<le> length s \<and> s ! (i - 1) = newline) \<Longrightarrow> matches s Bol i i"
| matches_Eol: "i = length s \<or> (i < length s \<and> s ! i = newline) \<Longrightarrow> matches s Eol i i"
| matches_Seq: "matches s r1 i k \<Longrightarrow> matches s r2 k j \<Longrightarrow> matches s (Seq r1 r2) i j"
| matches_Alt1: "matches s r1 i j \<Longrightarrow> matches s (Alt r1 r2) i j"
| matches_Alt2: "matches s r2 i j \<Longrightarrow> matches s (Alt r1 r2) i j"
| matches_Star_none: "matches s (Star r) i i"
| matches_Star_more:
    "matches s r i k \<Longrightarrow> matches s (Star r) k j \<Longrightarrow> matches s (Star r) i j"

section \<open>Predicates and sample data used to state the properties\<close>

text \<open>
  \<open>lexically_under p root\<close>: the components of \<open>root\<close> are the first components of \<open>p\<close>
  as written. \<open>located_under w p root\<close>: the place that \<open>p\<close> resolves to in the file system
  lies below the place that \<open>root\<close> resolves to.
\<close>

definition lexically_under :: "path \<Rightarrow> path \<Rightarrow> bool" where
  "lexically_under p root \<longleftrightarrow>
     absolute p = absolute root \<and> take (length (segments root)) (segments p) = segments root"

definition located_under :: "world \<Rightarrow> path \<Rightarrow> path \<Rightarrow> bool" where
  "located_under w p root \<longleftrightarrow>
     (case location w p of
        None \<Rightarrow> False
      | Some a \<Rightarrow>
          (case location w root of
             None \<Rightarrow> False
           | Some b \<Rightarrow> take (length b) a = b))"

text \<open>
  A project root \<open>/proj\<close> with four files, a file \<open>/x.txt\<close> outside of it, and a project
  directory \<open>/pd\<close> with the two input files.
\<close>

definition sample_world :: world where
  "sample_world =
     \<lparr>files =
        [([''proj''], Directory),
         ([''proj'', ''a.py''], File ''# c\<newline>x = 1''),
         ([''proj'', ''all.py''], File ''# a\<newline># b''),
         ([''proj'', ''blank.txt''], File ''  \<newline>''),
         ([''proj'', ''Thumbs.DB''], File ''t''),
         ([''x.txt''], File ''hello''),
         ([''pd''], Directory),
         ([''pd'', ''config.ini''], File ''[Filtering]''),
         ([''pd'', ''files.txt''], File ''a.py'')],
      cwd = [''pd''],
      home = ''/home/u'',
      time_minute = ''2024-01-01_10-00'',
      time_second = ''2024-01-01 10:00:00'',
      stdout = [],
      markdown = []\<rparr>"

definition sample_root :: path where
  "sample_root = \<lparr>absolute = True, segments = [''proj'']\<rparr>"

definition sample_config :: "regex filtering_config" where
  "sample_config =
     \<lparr>exclude_files = True,
      clean_comments = True,
      exclude_patterns = get_default_exclude_patterns,
      comment_patterns = [(''python'', [hash_comment_pattern])]\<rparr>"
section \<open>Facts about splitting and joining\<close>

lemma split_on_not_Nil: "split_on sep s \<noteq> []"
  by (induction s) (auto split: list.splits)

lemma join_Cons: "ls \<noteq> [] \<Longrightarrow> join sep (l # ls) = l @ sep @ join sep ls"
  by (cases ls) auto

lemma join_split_on: "join [sep] (split_on sep s) = s"
proof (induction s)
  case Nil
  show ?case by simp
next
  case (Cons c cs)
  obtain l ls where sp: "split_on sep cs = l # ls"
    using split_on_not_Nil [of sep cs] by (cases "split_on sep cs") auto
  show ?case
  proof (cases "c = sep")
    case True
    then show ?thesis using Cons.IH by (simp add: join_Cons split_on_not_Nil)
  next
    case False
    then show ?thesis using Cons.IH sp by (cases ls) auto
  qed
qed

lemma split_on_no_sep: "l \<in> set (split_on sep s) \<Longrightarrow> sep \<notin> set l"
proof (induction s arbitrary: l)
  case Nil
  then show ?case by simp
next
  case (Cons c cs)
  obtain h t where sp: "split_on sep cs = h # t"
    using split_on_not_Nil [of sep cs] by (cases "split_on sep cs") auto
  show ?case
  proof (cases "c = sep")
    case True
    then show ?thesis using Cons by auto
  next
    case False
    then show ?thesis using Cons sp by auto
  qed
qed

lemma split_on_single: "sep \<notin> set l \<Longrightarrow> split_on sep l = [l]"
  by (induction l) auto

lemma split_on_append_sep:
  "sep \<notin> set l \<Longrightarrow> split_on sep (l @ sep # s) = l # split_on sep s"
  by (induction l) auto

lemma split_on_join:
  "ls \<noteq> [] \<Longrightarrow> \<forall>l \<in> set ls. sep \<notin> set l \<Longrightarrow> split_on sep (join [sep] ls) = ls"
proof (induction ls)
  case Nil
  then show ?case by simp
next
  case (Cons l ls)
  show ?case
  proof (cases ls)
    case Nil
    then show ?thesis using Cons.prems by (simp add: split_on_single)
  next
    case (Cons l' ls')
    then have "ls \<noteq> []" by simp
    then show ?thesis
      using Cons.IH Cons.prems by (simp add: join_Cons split_on_append_sep)
  qed
qed

section \<open>Facts about the two loops of clean_content\<close>

lemma clean_lines_filter:
  "clean_lines re_match patterns lines acc = Inr out \<Longrightarrow>
   out = acc @ filter (\<lambda>l. strip l = [] \<or> is_comment re_match patterns l = Inr False) lines"
proof (induction lines arbitrary: acc)
  case Nil
  then show ?case by simp
next
  case (Cons line lines)
  show ?case
  proof (cases "is_comment re_match patterns line")
    case (Inl e)
    then show ?thesis using Cons.prems by simp
  next
    case (Inr c)
    then show ?thesis
      using Cons.prems Cons.IH [of "acc @ [line]"] Cons.IH [of acc]
      by (cases c) (auto split: if_splits)
  qed
qed

lemma strip_Nil [simp]: "strip [] = []"
  by (simp add: strip_def)

text \<open>
  C10. clean_content returns the content unchanged when the comment-pattern table is
  empty, when it has no entry for the lang, or when the entry of the lang is the
  empty pattern list.
\<close>

theorem clean_content_identity_without_patterns:
  "table = [] \<or> map_of table lang = None
     \<or> map_of table lang = Some [] \<Longrightarrow>
   clean_content re_match content lang table = Inr content"
  by (auto simp: clean_content_def)

theorem clean_content_identity_without_patterns_witness:
  "clean_content (\<lambda>p l. Inr True) ''# a'' ''python'' ([] :: (string, unit list) dict) = Inr ''# a'' \<and>
   map_of [(''ruby'', [()])] ''python'' = None \<and>
   clean_content (\<lambda>p l. Inr True) ''# a'' ''python'' [(''ruby'', [()])] = Inr ''# a'' \<and>
   map_of [(''python'', [] :: unit list)] ''python'' = Some [] \<and>
   clean_content (\<lambda>p l. Inr True) ''# a'' ''python'' [(''python'', [] :: unit list)] = Inr ''# a''"
  using clean_content_identity_without_patterns
          [of "[] :: (string, unit list) dict" "''python''" "\<lambda>p l. Inr True" "''# a''"]
        clean_content_identity_without_patterns
          [of "[(''ruby'', [()])]" "''python''" "\<lambda>p l. Inr True" "''# a''"]
        clean_content_identity_without_patterns
          [of "[(''python'', [] :: unit list)]" "''python''" "\<lambda>p l. Inr True" "''# a''"]
  by simp

lemma filter_keeps_position:
  assumes "i < length xs" and "P (xs ! i)"
  shows "length (filter P (take i xs)) < length (filter P xs) \<and>
         filter P xs ! length (filter P (take i xs)) = xs ! i"
proof -
  have "xs = take i xs @ xs ! i # drop (Suc i) xs"
    using assms(1) by (simp add: id_take_nth_drop)
  then have "filter P xs = filter P (take i xs) @ filter P (xs ! i # drop (Suc i) xs)"
    by (metis filter_append)
  then have "filter P xs = filter P (take i xs) @ xs ! i # filter P (drop (Suc i) xs)"
    using assms(2) by simp
  then show ?thesis
    by (metis length_append length_Cons less_add_Suc1 add_Suc_right nth_append_length)
qed

lemma joined_filter_position:
  assumes keep: "\<forall>l. strip l = [] \<longrightarrow> keep l"
    and out: "out = join [newline] (filter keep (split_on newline content))"
    and i: "i < length (split_on newline content)"
    and blank: "strip (split_on newline content ! i) = []"
  shows "length (filter keep (take i (split_on newline content))) < length (split_on newline out) \<and>
         split_on newline out ! length (filter keep (take i (split_on newline content)))
           = split_on newline content ! i"
proof -
  let ?ls = "split_on newline content"
  have k: "keep (?ls ! i)" using keep blank by simp
  have pos: "length (filter keep (take i ?ls)) < length (filter keep ?ls) \<and>
             filter keep ?ls ! length (filter keep (take i ?ls)) = ?ls ! i"
    using filter_keeps_position [OF i, of keep] k by simp
  then have ne: "filter keep ?ls \<noteq> []" by auto
  have "\<forall>l \<in> set (filter keep ?ls). newline \<notin> set l"
    using split_on_no_sep [of _ newline content] by auto
  then have "split_on newline out = filter keep ?ls"
    using ne out split_on_join [of "filter keep ?ls" newline] by simp
  then show ?thesis using pos by simp
qed

text \<open>
  C3. Whenever clean_content returns, its output is the input with some lines deleted, and
  no blank (empty or whitespace-only) line is among the deleted ones, whatever the
  patterns match: the blank line at index \<open>i\<close> of the input is the line of the output at
  the index that counts the lines kept before it.
\<close>

theorem clean_content_keeps_blank_lines:
  assumes "clean_content re_match content lang table = Inr out"
  shows "\<exists>keep. (\<forall>l. strip l = [] \<longrightarrow> keep l) \<and>
           out = join [newline] (filter keep (split_on newline content)) \<and>
           (\<forall>i < length (split_on newline content).
              strip (split_on newline content ! i) = [] \<longrightarrow>
                length (filter keep (take i (split_on newline content)))
                  < length (split_on newline out) \<and>
                split_on newline out ! length (filter keep (take i (split_on newline content)))
                  = split_on newline content ! i)"
proof -
  let ?ps = "case map_of table lang of None \<Rightarrow> [] | Some ps \<Rightarrow> ps"
  let ?ls = "split_on newline content"
  have "\<exists>keep. (\<forall>l. strip l = [] \<longrightarrow> keep l) \<and> out = join [newline] (filter keep ?ls)"
  proof (cases "table = [] \<or> ?ps = []")
    case True
    then have "out = content"
      using assms by (auto simp: clean_content_def Let_def split: if_splits)
    then have t: "out = join [newline] (filter (\<lambda>l. True) ?ls)"
      by (simp add: join_split_on)
    show ?thesis
      by (rule exI [where x = "\<lambda>l. True"]) (use t in simp)
  next
    case False
    then have "(case clean_lines re_match ?ps ?ls [] of
                  Inl e \<Rightarrow> Inl e
                | Inr cleaned_lines \<Rightarrow> Inr (join [newline] cleaned_lines)) = Inr out"
      using assms by (simp add: clean_content_def Let_def)
    then obtain cl where cl: "clean_lines re_match ?ps ?ls [] = Inr cl"
      and o: "out = join [newline] cl"
      by (cases "clean_lines re_match ?ps ?ls []") auto
    let ?keep = "\<lambda>l. strip l = [] \<or> is_comment re_match ?ps l = Inr False"
    have c: "cl = filter ?keep ?ls"
      using clean_lines_filter [OF cl] by simp
    show ?thesis
      by (rule exI [where x = ?keep]) (use c o in simp)
  qed
  then obtain keep where k: "\<forall>l. strip l = [] \<longrightarrow> keep l"
    and o: "out = join [newline] (filter keep ?ls)"
    by blast
  have p: "\<forall>i < length ?ls. strip (?ls ! i) = [] \<longrightarrow>
          length (filter keep (take i ?ls)) < length (split_on newline out) \<and>
          split_on newline out ! length (filter keep (take i ?ls)) = ?ls ! i"
    using joined_filter_position [OF k o] by simp
  show ?thesis
    by (rule exI [where x = keep]) (use k o p in blast)
qed

theorem clean_content_keeps_blank_lines_witness:
  "clean_content (\<lambda>p l. Inr True) ''a\<newline>  \<newline>b'' ''x'' [(''x'', [()])] = Inr ''  '' \<and>
   (\<exists>keep. (\<forall>l. strip l = [] \<longrightarrow> keep l) \<and>
      ''  '' = join [newline] (filter keep (split_on newline ''a\<newline>  \<newline>b'')) \<and>
      (\<forall>i < length (split_on newline ''a\<newline>  \<newline>b'').
         strip (split_on newline ''a\<newline>  \<newline>b'' ! i) = [] \<longrightarrow>
           length (filter keep (take i (split_on newline ''a\<newline>  \<newline>b'')))
             < length (split_on newline ''  '') \<and>
           split_on newline ''  '' ! length (filter keep (take i (split_on newline ''a\<newline>  \<newline>b'')))
             = split_on newline ''a\<newline>  \<newline>b'' ! i))"
proof -
  have e: "clean_content (\<lambda>p l. Inr True) ''a\<newline>  \<newline>b'' ''x'' [(''x'', [()])] = Inr ''  ''"
    by (simp add: clean_content_def newline_def strip_def is_space_def)
  show ?thesis
    using e clean_content_keeps_blank_lines [OF e] by simp
qed


section \<open>Evaluating the sample data\<close>

lemma sample_lookup:
  "lookup sample_world \<lparr>absolute = True, segments = [''proj'', ''blank.txt'']\<rparr>
     = Some (File ''  \<newline>'')"
  "lookup sample_world \<lparr>absolute = True, segments = [''proj'', ''all.py'']\<rparr>
     = Some (File ''# a\<newline># b'')"
  "lookup sample_world \<lparr>absolute = True, segments = [''proj'', ''Thumbs.DB'']\<rparr>
     = Some (File ''t'')"
  "lookup sample_world \<lparr>absolute = True, segments = [''x.txt'']\<rparr> = Some (File ''hello'')"
  "lookup sample_world \<lparr>absolute = True, segments = [''proj'', ''..'', ''x.txt'']\<rparr>
     = Some (File ''hello'')"
  by (simp_all add: lookup_def location_def node_at_def sample_world_def)

lemma sample_language:
  "get_language_for_file \<lparr>absolute = True, segments = [''proj'', ''all.py'']\<rparr> ''text''
     get_default_language_mappings = ''python''"
  "get_language_for_file \<lparr>absolute = True, segments = [''proj'', ''blank.txt'']\<rparr> ''text''
     get_default_language_mappings = ''text''"
  "get_language_for_file \<lparr>absolute = True, segments = [''x.txt'']\<rparr> ''text''
     get_default_language_mappings = ''text''"
  "get_language_for_file \<lparr>absolute = True, segments = [''proj'', ''..'', ''x.txt'']\<rparr> ''text''
     get_default_language_mappings = ''text''"
  by (simp_all add: get_default_language_mappings_def get_language_for_file_def path_name_def
      endswith_def lower_def lower_char_def)

lemma hash_comment_matches:
  "re_match_model hash_comment_pattern ''# a'' = Inr True"
  "re_match_model hash_comment_pattern ''# b'' = Inr True"
  by (simp_all add: re_match_model_def hash_comment_pattern_def)

section \<open>Language classification\<close>

text \<open>
  C1. A configuration whose \<open>[LanguageMappings]\<close> section maps the compound suffix
  \<open>.html.erb\<close> to \<open>html\<close> gives a table in which \<open>.html.erb\<close> is mapped to \<open>html\<close> and the
  plain suffix \<open>.erb\<close> to \<open>erb\<close>. The file \<open>index.html.erb\<close> ends with the compound suffix,
  its plain suffix is \<open>.erb\<close>, and get_language_for_file classifies it as \<open>erb\<close>, the
  language of the plain suffix: the first loop returns the first key in the order of the
  table that the name ends with, and \<open>.erb\<close> stands before \<open>.html.erb\<close>.
\<close>

theorem compound_suffix_after_plain_suffix_is_not_used:
  "read_language_mappings
      (\<lambda>text. Inr [(''Settings'', [(''project_root'', ''/proj'')]),
                     (''LanguageMappings'', [(''.html.erb'', ''html'')])])
      \<lparr>files = [([''pd''], Directory), ([''pd'', ''config.ini''], File [])], cwd = [],
        home = [], time_minute = [], time_second = [], stdout = [], markdown = []\<rparr>
      (Path ''/pd/config.ini'')
     = Inr (dict_update get_default_language_mappings [(''.html.erb'', ''html'')]) \<and>
   map_of (dict_update get_default_language_mappings [(''.html.erb'', ''html'')]) ''.html.erb''
     = Some ''html'' \<and>
   map_of (dict_update get_default_language_mappings [(''.html.erb'', ''html'')]) ''.erb''
     = Some ''erb'' \<and>
   endswith (path_name (Path ''/proj/index.html.erb'')) ''.html.erb'' \<and>
   path_suffix (Path ''/proj/index.html.erb'') = ''.erb'' \<and>
   get_language_for_file (Path ''/proj/index.html.erb'') ''text''
       (dict_update get_default_language_mappings [(''.html.erb'', ''html'')])
     = ''erb''"
proof -
  have p: "Path ''/proj/index.html.erb'' = \<lparr>absolute = True, segments = [''proj'', ''index.html.erb'']\<rparr>"
    by (simp add: Path_def)
  have c: "Path ''/pd/config.ini'' = \<lparr>absolute = True, segments = [''pd'', ''config.ini'']\<rparr>"
    by (simp add: Path_def)
  have n: "path_name \<lparr>absolute = True, segments = [''proj'', ''index.html.erb'']\<rparr> = ''index.html.erb''"
    by (simp add: path_name_def)
  have s: "path_suffix \<lparr>absolute = True, segments = [''proj'', ''index.html.erb'']\<rparr> = ''.erb''"
    by (simp add: path_suffix_def n rfind_def)
  have r: "read_language_mappings
      (\<lambda>text. Inr [(''Settings'', [(''project_root'', ''/proj'')]),
                     (''LanguageMappings'', [(''.html.erb'', ''html'')])])
      \<lparr>files = [([''pd''], Directory), ([''pd'', ''config.ini''], File [])], cwd = [],
        home = [], time_minute = [], time_second = [], stdout = [], markdown = []\<rparr>
      \<lparr>absolute = True, segments = [''pd'', ''config.ini'']\<rparr>
     = Inr (dict_update get_default_language_mappings [(''.html.erb'', ''html'')])"
    by (simp add: read_language_mappings_def config_read_def read_text_def lookup_def
        location_def node_at_def)
  have g: "get_language_for_file \<lparr>absolute = True, segments = [''proj'', ''index.html.erb'']\<rparr>
       ''text'' (dict_update get_default_language_mappings [(''.html.erb'', ''html'')]) = ''erb''"
    by (simp add: get_default_language_mappings_def get_language_for_file_def path_name_def
        endswith_def lower_def lower_char_def)
  have m1: "map_of (dict_update get_default_language_mappings [(''.html.erb'', ''html'')])
      ''.html.erb'' = Some ''html''"
    by (simp add: get_default_language_mappings_def)
  have m2: "map_of (dict_update get_default_language_mappings [(''.html.erb'', ''html'')])
      ''.erb'' = Some ''erb''"
    by (simp add: get_default_language_mappings_def)
  have e: "endswith ''index.html.erb'' ''.html.erb''"
    by (simp add: endswith_def)
  show ?thesis
    unfolding p c n s
    by (intro conjI r m1 m2 e g refl)
qed

text \<open>
  The rule that the first loop of get_language_for_file implements: the entries are tried in
  the iteration order of the table, and the first entry whose key is longer than one
  character and whose lowercased key ends the lowercased name decides; the length of the
  key plays no other part.
\<close>

theorem compound_pass_first_match:
  "compound_pass full_name table
     = (case filter (\<lambda>(ext, lang). endswith full_name (lower ext) \<and> length ext > 1) table of
          [] \<Rightarrow> None
        | (ext, lang) # rest \<Rightarrow> Some lang)"
proof (induction table)
  case Nil
  show ?case by simp
next
  case (Cons entry table)
  obtain ext lang where e: "entry = (ext, lang)" by (cases entry)
  show ?case
  proof (cases "endswith full_name (lower ext) \<and> length ext > 1")
    case True
    then show ?thesis using e by simp
  next
    case False
    then show ?thesis using e Cons.IH by auto
  qed
qed

section \<open>Exclusion\<close>

lemma contains_iff: "contains s sub \<longleftrightarrow> (\<exists>pre post. s = pre @ sub @ post)"
proof (induction s)
  case Nil
  show ?case by simp
next
  case (Cons c cs)
  have a: "take (length sub) (c # cs) = sub \<longleftrightarrow> (\<exists>post. c # cs = sub @ post)"
    by (metis append_take_drop_id append_eq_conv_conj)
  have b: "(\<exists>pre post. c # cs = pre @ sub @ post) \<longleftrightarrow>
           (\<exists>post. c # cs = sub @ post) \<or> (\<exists>pre post. cs = pre @ sub @ post)"
  proof
    assume "\<exists>pre post. c # cs = pre @ sub @ post"
    then obtain pre post where e: "c # cs = pre @ sub @ post" by blast
    show "(\<exists>post. c # cs = sub @ post) \<or> (\<exists>pre post. cs = pre @ sub @ post)"
    proof (cases pre)
      case Nil
      then show ?thesis using e by auto
    next
      case (Cons x pre')
      then have "cs = pre' @ sub @ post" using e by simp
      then show ?thesis by blast
    qed
  next
    assume "(\<exists>post. c # cs = sub @ post) \<or> (\<exists>pre post. cs = pre @ sub @ post)"
    then show "\<exists>pre post. c # cs = pre @ sub @ post"
    proof
      assume "\<exists>post. c # cs = sub @ post"
      then obtain post where "c # cs = [] @ sub @ post" by auto
      then show ?thesis by blast
    next
      assume "\<exists>pre post. cs = pre @ sub @ post"
      then obtain pre post where "c # cs = (c # pre) @ sub @ post" by auto
      then show ?thesis by blast
    qed
  qed
  show ?case using Cons.IH a b by simp
qed

lemma should_exclude_file_iff:
  "should_exclude_file filepath pats \<longleftrightarrow>
     (\<exists>pattern \<in> set pats. \<exists>pre post. lower (path_name filepath) = pre @ lower pattern @ post)"
  by (simp add: should_exclude_file_def list_ex_iff contains_iff)

lemma markdown_print [simp]: "markdown (print s w) = markdown w"
  by (simp add: print_def)

lemma process_file_try_exclude_patterns_unused:
  "process_file_try re_match filepath project_root default_language language_mappings
     (fc\<lparr>exclude_patterns := other\<rparr>) w
   = process_file_try re_match filepath project_root default_language language_mappings fc w"
  by (simp add: process_file_try_def Let_def split: sum.splits)

lemma process_file_exclude_patterns_unused:
  "\<not> exclude_files fc \<Longrightarrow>
   process_file re_match filepath project_root default_language language_mappings
     (fc\<lparr>exclude_patterns := other\<rparr>) w
   = process_file re_match filepath project_root default_language language_mappings fc w"
  by (simp add: process_file_def process_file_try_exclude_patterns_unused)

text \<open>
  C4. should_exclude_file is true exactly when the lowercased name of the file contains the
  lowercased form of some exclude pattern as a contiguous run. When the exclude-files flag
  is set, process_file writes nothing for such a file (and prints that it was excluded, when
  the file exists). When the flag is not set, the patterns play no part: process_file does
  the same whatever the patterns are, and an existing file always reaches the body of the
  \<open>try\<close> statement.
\<close>

theorem should_exclude_file_substring:
  "(should_exclude_file filepath pats \<longleftrightarrow>
      (\<exists>pattern \<in> set pats. \<exists>pre post.
         lower (path_name filepath) = pre @ lower pattern @ post)) \<and>
   (exclude_files fc \<and> should_exclude_file filepath (exclude_patterns fc) \<longrightarrow>
      markdown (process_file re_match filepath project_root default_language
                  language_mappings fc w) = markdown w \<and>
      (exists w filepath \<longrightarrow>
         process_file re_match filepath project_root default_language language_mappings fc w
           = print (''Excluded file: '' @ path_str filepath) w)) \<and>
   (\<not> exclude_files fc \<longrightarrow>
      process_file re_match filepath project_root default_language language_mappings
        (fc\<lparr>exclude_patterns := other\<rparr>) w
        = process_file re_match filepath project_root default_language language_mappings fc w \<and>
      (exists w filepath \<longrightarrow>
         process_file re_match filepath project_root default_language language_mappings fc w
           = (case process_file_try re_match filepath project_root default_language
                     language_mappings fc w of
                Inl e \<Rightarrow>
                  print (''Error reading file '' @ path_str filepath @ '': '' @ error_str e) w
              | Inr w' \<Rightarrow> w')))"
proof (intro conjI impI)
  show "should_exclude_file filepath pats \<longleftrightarrow>
      (\<exists>pattern \<in> set pats. \<exists>pre post.
         lower (path_name filepath) = pre @ lower pattern @ post)"
    by (rule should_exclude_file_iff)
next
  assume "exclude_files fc \<and> should_exclude_file filepath (exclude_patterns fc)"
  then show "markdown (process_file re_match filepath project_root default_language
                  language_mappings fc w) = markdown w"
    by (simp add: process_file_def)
next
  assume "exclude_files fc \<and> should_exclude_file filepath (exclude_patterns fc)"
    and "exists w filepath"
  then show "process_file re_match filepath project_root default_language language_mappings fc w
           = print (''Excluded file: '' @ path_str filepath) w"
    by (simp add: process_file_def)
next
  assume "\<not> exclude_files fc"
  then show "process_file re_match filepath project_root default_language language_mappings
        (fc\<lparr>exclude_patterns := other\<rparr>) w
        = process_file re_match filepath project_root default_language language_mappings fc w"
    by (rule process_file_exclude_patterns_unused)
next
  assume "\<not> exclude_files fc" and "exists w filepath"
  then show "process_file re_match filepath project_root default_language language_mappings fc w
           = (case process_file_try re_match filepath project_root default_language
                     language_mappings fc w of
                Inl e \<Rightarrow>
                  print (''Error reading file '' @ path_str filepath @ '': '' @ error_str e) w
              | Inr w' \<Rightarrow> w')"
    by (simp add: process_file_def)
qed

theorem should_exclude_file_substring_witness:
  "should_exclude_file \<lparr>absolute = True, segments = [''proj'', ''Thumbs.DB'']\<rparr>
     get_default_exclude_patterns \<and>
   (\<exists>pattern \<in> set get_default_exclude_patterns. \<exists>pre post.
      lower (path_name \<lparr>absolute = True, segments = [''proj'', ''Thumbs.DB'']\<rparr>)
        = pre @ lower pattern @ post) \<and>
   exists sample_world \<lparr>absolute = True, segments = [''proj'', ''Thumbs.DB'']\<rparr> \<and>
   process_file re_match_model \<lparr>absolute = True, segments = [''proj'', ''Thumbs.DB'']\<rparr>
       sample_root ''text'' get_default_language_mappings sample_config sample_world
     = print ''Excluded file: /proj/Thumbs.DB'' sample_world \<and>
   process_file re_match_model \<lparr>absolute = True, segments = [''proj'', ''Thumbs.DB'']\<rparr>
       sample_root ''text'' get_default_language_mappings
       (sample_config\<lparr>exclude_files := False, exclude_patterns := []\<rparr>) sample_world
     = process_file re_match_model \<lparr>absolute = True, segments = [''proj'', ''Thumbs.DB'']\<rparr>
         sample_root ''text'' get_default_language_mappings
         (sample_config\<lparr>exclude_files := False\<rparr>) sample_world"
proof -
  let ?p = "\<lparr>absolute = True, segments = [''proj'', ''Thumbs.DB'']\<rparr>"
  have h1: "should_exclude_file ?p get_default_exclude_patterns"
    by (simp add: should_exclude_file_def get_default_exclude_patterns_def
        path_name_def lower_def lower_char_def)
  then have h1': "exclude_files sample_config
      \<and> should_exclude_file ?p (exclude_patterns sample_config)"
    by (simp add: sample_config_def)
  have h2: "exists sample_world ?p"
    by (simp add: exists_def sample_lookup)
  have h3: "\<not> exclude_files (sample_config\<lparr>exclude_files := False\<rparr>)"
    by simp
  have s: "path_str ?p = ''/proj/Thumbs.DB''"
    by (simp add: path_str_def)
  have a: "\<exists>pattern \<in> set get_default_exclude_patterns. \<exists>pre post.
      lower (path_name ?p) = pre @ lower pattern @ post"
    using should_exclude_file_substring
      [of ?p get_default_exclude_patterns sample_config re_match_model sample_root "''text''"
        get_default_language_mappings sample_world "[]"]
      h1
    by blast
  have b: "process_file re_match_model ?p sample_root ''text'' get_default_language_mappings
       sample_config sample_world = print (''Excluded file: '' @ path_str ?p) sample_world"
    using should_exclude_file_substring
      [of ?p get_default_exclude_patterns sample_config re_match_model sample_root "''text''"
        get_default_language_mappings sample_world "[]"]
      h1' h2
    by blast
  have c: "process_file re_match_model ?p sample_root ''text'' get_default_language_mappings
       (sample_config\<lparr>exclude_files := False, exclude_patterns := []\<rparr>) sample_world
     = process_file re_match_model ?p sample_root ''text'' get_default_language_mappings
         (sample_config\<lparr>exclude_files := False\<rparr>) sample_world"
    using should_exclude_file_substring
      [of ?p get_default_exclude_patterns "sample_config\<lparr>exclude_files := False\<rparr>"
        re_match_model sample_root "''text''" get_default_language_mappings sample_world "[]"]
      h3
    by blast
  show ?thesis
    using h1 h2 a b c by (simp only: s append.simps; simp)
qed

section \<open>Blank content\<close>

lemma strip_eq_Nil_iff: "strip s = [] \<longleftrightarrow> (\<forall>c \<in> set s. is_space c)"
proof
  assume "strip s = []"
  then have "dropWhile is_space (rev (dropWhile is_space s)) = []"
    by (simp add: strip_def)
  then have a: "\<forall>c \<in> set (dropWhile is_space s). is_space c"
    by (simp add: dropWhile_eq_Nil_conv)
  have "dropWhile is_space s = []"
  proof (rule ccontr)
    assume n: "dropWhile is_space s \<noteq> []"
    then have "\<not> is_space (hd (dropWhile is_space s))"
      by (rule hd_dropWhile)
    moreover have "hd (dropWhile is_space s) \<in> set (dropWhile is_space s)"
      using n by simp
    ultimately show False using a by blast
  qed
  then show "\<forall>c \<in> set s. is_space c"
    by (simp add: dropWhile_eq_Nil_conv)
next
  assume "\<forall>c \<in> set s. is_space c"
  then show "strip s = []"
    by (auto simp: strip_def dest: set_dropWhileD)
qed

lemma is_space_newline: "is_space newline"
  by (simp add: is_space_def newline_def)

lemma set_join_newline:
  "c \<in> set (join [newline] ls) \<Longrightarrow> c = newline \<or> (\<exists>l \<in> set ls. c \<in> set l)"
  by (induction "[newline]" ls rule: join.induct) auto

lemma strip_join_blank:
  assumes "\<forall>l \<in> set ls. strip l = []"
  shows "strip (join [newline] ls) = []"
proof -
  have "\<forall>c \<in> set (join [newline] ls). is_space c"
  proof
    fix c
    assume "c \<in> set (join [newline] ls)"
    then have "c = newline \<or> (\<exists>l \<in> set ls. c \<in> set l)"
      by (rule set_join_newline)
    then show "is_space c"
      using assms is_space_newline strip_eq_Nil_iff by blast
  qed
  then show ?thesis by (simp add: strip_eq_Nil_iff)
qed

lemma set_split_on: "l \<in> set (split_on sep s) \<Longrightarrow> set l \<subseteq> set s"
proof (induction s arbitrary: l)
  case Nil
  then show ?case by simp
next
  case (Cons c cs)
  obtain h t where sp: "split_on sep cs = h # t"
    using split_on_not_Nil [of sep cs] by (cases "split_on sep cs") auto
  show ?case
  proof (cases "c = sep")
    case True
    then show ?thesis using Cons by auto
  next
    case False
    then have "l = c # h \<or> l \<in> set t" using Cons.prems sp by simp
    then show ?thesis
    proof
      assume "l = c # h"
      moreover have "set h \<subseteq> set cs" using Cons.IH [of h] sp by simp
      ultimately show ?thesis by auto
    next
      assume "l \<in> set t"
      then have "set l \<subseteq> set cs" using Cons.IH [of l] sp by simp
      then show ?thesis by auto
    qed
  qed
qed

lemma lines_of_blank_content:
  "strip s = [] \<Longrightarrow> l \<in> set (split_on newline s) \<Longrightarrow> strip l = []"
  using set_split_on [of l newline s] by (auto simp: strip_eq_Nil_iff)

lemma clean_content_result:
  assumes "clean_content re_match content lang table = Inr out"
  shows "out = content \<or>
         (\<exists>ps. ps \<noteq> [] \<and> map_of table lang = Some ps \<and>
            out = join [newline]
                    (filter (\<lambda>l. strip l = [] \<or> is_comment re_match ps l = Inr False)
                       (split_on newline content)))"
proof (cases "table = [] \<or> (case map_of table lang of None \<Rightarrow> [] | Some ps \<Rightarrow> ps) = []")
  case True
  then show ?thesis
    using assms by (auto simp: clean_content_def Let_def split: if_splits)
next
  case False
  then obtain ps where ps: "map_of table lang = Some ps" "ps \<noteq> []"
    by (cases "map_of table lang") auto
  have "(case clean_lines re_match ps (split_on newline content) [] of
           Inl e \<Rightarrow> Inl e
         | Inr cleaned_lines \<Rightarrow> Inr (join [newline] cleaned_lines)) = Inr out"
    using assms False ps by (simp add: clean_content_def Let_def)
  then obtain cl where cl: "clean_lines re_match ps (split_on newline content) [] = Inr cl"
    and o: "out = join [newline] cl"
    by (cases "clean_lines re_match ps (split_on newline content) []") auto
  have "cl = filter (\<lambda>l. strip l = [] \<or> is_comment re_match ps l = Inr False)
               (split_on newline content)"
    using clean_lines_filter [OF cl] by simp
  then show ?thesis using ps o by blast
qed

lemma clean_content_blank:
  assumes "clean_content re_match content lang table = Inr out" and "strip content = []"
  shows "out = content"
proof -
  have "filter (\<lambda>l. strip l = [] \<or> P l) (split_on newline content) = split_on newline content"
    for P
    using lines_of_blank_content [OF assms(2)] by (simp add: filter_id_conv)
  then show ?thesis
    using clean_content_result [OF assms(1)] by (auto simp: join_split_on)
qed

lemma clean_content_blank_stays_blank:
  assumes "clean_content re_match content lang table = Inr out" and "strip content = []"
  shows "strip out = []"
  using clean_content_blank [OF assms] assms(2) by simp

section \<open>What process_file writes\<close>

lemma markdown_write_md [simp]: "markdown (write_md s w) = markdown w @ [s]"
  by (simp add: write_md_def)

lemma process_file_try_cases:
  assumes "process_file_try re_match filepath project_root default_language language_mappings
             fc w = Inr w'"
  shows "w' = print (''Skipped empty file after cleaning: '' @ path_str filepath) w \<or>
         (\<exists>raw content rel.
            read_text w filepath = Inr raw \<and>
            (if clean_comments fc
             then clean_content re_match raw
                    (get_language_for_file filepath default_language language_mappings)
                    (comment_patterns fc)
             else Inr raw) = Inr content \<and>
            strip content \<noteq> [] \<and>
            relative_to filepath project_root = Inr rel \<and>
            w' = write_md (section_text rel
                    (get_language_for_file filepath default_language language_mappings) content) w)"
  using assms
  by (auto simp: process_file_try_def Let_def split: sum.splits if_splits)

lemma process_file_cases:
  "markdown (process_file re_match filepath project_root default_language language_mappings fc w)
     = markdown w \<or>
   (\<exists>raw content rel.
      read_text w filepath = Inr raw \<and>
      (if clean_comments fc
       then clean_content re_match raw
              (get_language_for_file filepath default_language language_mappings)
              (comment_patterns fc)
       else Inr raw) = Inr content \<and>
      strip content \<noteq> [] \<and>
      relative_to filepath project_root = Inr rel \<and>
      process_file re_match filepath project_root default_language language_mappings fc w
        = write_md (section_text rel
             (get_language_for_file filepath default_language language_mappings) content) w)"
proof (cases "process_file_try re_match filepath project_root default_language
                language_mappings fc w")
  case (Inl e)
  then show ?thesis by (simp add: process_file_def)
next
  case (Inr w')
  show ?thesis
    using process_file_try_cases [OF Inr] Inr by (auto simp: process_file_def)
qed

section \<open>Empty and blank content\<close>

text \<open>
  C9. A file whose raw content is empty or whitespace-only is never written, with the
  clean-comments flag set or not; with the flag not set it is reported as skipped. Whatever
  process_file writes is one section whose content is not blank.
\<close>

theorem process_file_never_writes_blank_content:
  "(read_text w filepath = Inr raw \<and> strip raw = [] \<longrightarrow>
      markdown (process_file re_match filepath project_root default_language
                  language_mappings fc w) = markdown w) \<and>
   (read_text w filepath = Inr raw \<and> strip raw = [] \<and> exists w filepath \<and>
    \<not> (exclude_files fc \<and> should_exclude_file filepath (exclude_patterns fc)) \<and>
    \<not> clean_comments fc \<longrightarrow>
      process_file re_match filepath project_root default_language language_mappings fc w
        = print (''Skipped empty file after cleaning: '' @ path_str filepath) w) \<and>
   (markdown (process_file re_match filepath project_root default_language
                language_mappings fc w) = markdown w \<or>
    (\<exists>content rel.
       strip content \<noteq> [] \<and>
       relative_to filepath project_root = Inr rel \<and>
       markdown (process_file re_match filepath project_root default_language
                   language_mappings fc w)
         = markdown w @ [section_text rel
              (get_language_for_file filepath default_language language_mappings) content]))"
proof (intro conjI impI)
  assume a: "read_text w filepath = Inr raw \<and> strip raw = []"
  show "markdown (process_file re_match filepath project_root default_language
                  language_mappings fc w) = markdown w"
  proof (rule ccontr)
    assume n: "\<not> ?thesis"
    then obtain raw' content where r: "read_text w filepath = Inr raw'"
      and c: "(if clean_comments fc
               then clean_content re_match raw'
                      (get_language_for_file filepath default_language language_mappings)
                      (comment_patterns fc)
               else Inr raw') = Inr content"
      and s: "strip content \<noteq> []"
      using process_file_cases [of re_match filepath project_root default_language
          language_mappings fc w]
      by blast
    have e: "raw' = raw" using a r by simp
    show False
    proof (cases "clean_comments fc")
      case True
      then have "clean_content re_match raw
                   (get_language_for_file filepath default_language language_mappings)
                   (comment_patterns fc) = Inr content"
        using c e by simp
      then have "strip content = []"
        using a by (simp add: clean_content_blank_stays_blank)
      then show False using s by simp
    next
      case False
      then show False using c e a s by simp
    qed
  qed
next
  assume "read_text w filepath = Inr raw \<and> strip raw = [] \<and> exists w filepath \<and>
    \<not> (exclude_files fc \<and> should_exclude_file filepath (exclude_patterns fc)) \<and>
    \<not> clean_comments fc"
  then show "process_file re_match filepath project_root default_language language_mappings fc w
        = print (''Skipped empty file after cleaning: '' @ path_str filepath) w"
    by (auto simp: process_file_def process_file_try_def)
next
  show "markdown (process_file re_match filepath project_root default_language
                language_mappings fc w) = markdown w \<or>
    (\<exists>content rel.
       strip content \<noteq> [] \<and>
       relative_to filepath project_root = Inr rel \<and>
       markdown (process_file re_match filepath project_root default_language
                   language_mappings fc w)
         = markdown w @ [section_text rel
              (get_language_for_file filepath default_language language_mappings) content])"
    using process_file_cases [of re_match filepath project_root default_language
        language_mappings fc w]
    by (metis markdown_write_md)
qed

theorem process_file_never_writes_blank_content_witness:
  "read_text sample_world \<lparr>absolute = True, segments = [''proj'', ''blank.txt'']\<rparr>
     = Inr ''  \<newline>'' \<and>
   strip ''  \<newline>'' = [] \<and>
   exists sample_world \<lparr>absolute = True, segments = [''proj'', ''blank.txt'']\<rparr> \<and>
   process_file re_match_model \<lparr>absolute = True, segments = [''proj'', ''blank.txt'']\<rparr>
       sample_root ''text'' get_default_language_mappings
       (sample_config\<lparr>clean_comments := False\<rparr>) sample_world
     = print ''Skipped empty file after cleaning: /proj/blank.txt'' sample_world \<and>
   markdown (process_file re_match_model \<lparr>absolute = True, segments = [''proj'', ''blank.txt'']\<rparr>
       sample_root ''text'' get_default_language_mappings sample_config sample_world)
     = markdown sample_world"
proof -
  let ?p = "\<lparr>absolute = True, segments = [''proj'', ''blank.txt'']\<rparr>"
  have h1: "read_text sample_world ?p = Inr ''  \<newline>''"
    by (simp add: read_text_def sample_lookup)
  have h2: "strip ''  \<newline>'' = []"
    by (simp add: strip_def is_space_def)
  have h3: "exists sample_world ?p"
    by (simp add: exists_def sample_lookup)
  have h4: "\<not> should_exclude_file ?p (exclude_patterns (sample_config\<lparr>clean_comments := False\<rparr>))"
    by (simp add: should_exclude_file_def sample_config_def get_default_exclude_patterns_def
        path_name_def lower_def lower_char_def)
  have h5: "\<not> clean_comments (sample_config\<lparr>clean_comments := False\<rparr>)"
    by simp
  have s: "path_str ?p = ''/proj/blank.txt''"
    by (simp add: path_str_def)
  have a: "process_file re_match_model ?p sample_root ''text'' get_default_language_mappings
       (sample_config\<lparr>clean_comments := False\<rparr>) sample_world
     = print (''Skipped empty file after cleaning: '' @ path_str ?p) sample_world"
    using process_file_never_writes_blank_content
      [of sample_world ?p "''  \<newline>''" re_match_model sample_root "''text''"
        get_default_language_mappings "sample_config\<lparr>clean_comments := False\<rparr>"]
      h1 h2 h3 h4 h5
    by blast
  have b: "markdown (process_file re_match_model ?p sample_root ''text''
       get_default_language_mappings sample_config sample_world) = markdown sample_world"
    using process_file_never_writes_blank_content
      [of sample_world ?p "''  \<newline>''" re_match_model sample_root "''text''"
        get_default_language_mappings sample_config]
      h1 h2
    by blast
  show ?thesis
    using h1 h2 h3 a b by (simp add: s)
qed

section \<open>Files outside the project root\<close>

lemma relative_to_Inl_iff:
  "(\<exists>e. relative_to p root = Inl e) \<longleftrightarrow> \<not> lexically_under p root"
  by (auto simp: relative_to_def lexically_under_def)

text \<open>
  C8, as amended. When the components of the project root are not the first components of
  the path of the file as it is written (\<open>relative_to\<close> compares the written components
  and resolves nothing), process_file writes nothing; and for an existing, readable file
  that is not excluded and whose content is not blank, it prints the ValueError that
  \<open>relative_to\<close> raised as an error of reading the file.
\<close>

theorem process_file_not_lexically_under_root:
  assumes "\<not> lexically_under filepath project_root"
  shows "markdown (process_file re_match filepath project_root default_language
                     language_mappings fc w) = markdown w \<and>
         (exists w filepath \<and>
          \<not> (exclude_files fc \<and> should_exclude_file filepath (exclude_patterns fc)) \<and>
          read_text w filepath = Inr raw \<and>
          (if clean_comments fc
           then clean_content re_match raw
                  (get_language_for_file filepath default_language language_mappings)
                  (comment_patterns fc)
           else Inr raw) = Inr content \<and>
          strip content \<noteq> [] \<longrightarrow>
            (\<exists>msg. relative_to filepath project_root = Inl (ValueError msg) \<and>
               process_file re_match filepath project_root default_language
                   language_mappings fc w
                 = print (''Error reading file '' @ path_str filepath @ '': '' @ msg) w))"
proof (intro conjI impI)
  have n: "\<And>rel. relative_to filepath project_root \<noteq> Inr rel"
    using assms relative_to_Inl_iff [of filepath project_root]
    by (cases "relative_to filepath project_root") auto
  show "markdown (process_file re_match filepath project_root default_language
                     language_mappings fc w) = markdown w"
    using process_file_cases [of re_match filepath project_root default_language
        language_mappings fc w] n
    by blast
next
  assume h: "exists w filepath \<and>
          \<not> (exclude_files fc \<and> should_exclude_file filepath (exclude_patterns fc)) \<and>
          read_text w filepath = Inr raw \<and>
          (if clean_comments fc
           then clean_content re_match raw
                  (get_language_for_file filepath default_language language_mappings)
                  (comment_patterns fc)
           else Inr raw) = Inr content \<and>
          strip content \<noteq> []"
  obtain msg where m: "relative_to filepath project_root = Inl (ValueError msg)"
    using assms by (auto simp: relative_to_def lexically_under_def)
  have "process_file_try re_match filepath project_root default_language language_mappings
          fc w = Inl (ValueError msg)"
    using h m by (auto simp: process_file_try_def Let_def)
  then have "process_file re_match filepath project_root default_language language_mappings fc w
      = print (''Error reading file '' @ path_str filepath @ '': '' @ msg) w"
    using h by (auto simp: process_file_def)
  then show "\<exists>msg. relative_to filepath project_root = Inl (ValueError msg) \<and>
               process_file re_match filepath project_root default_language
                   language_mappings fc w
                 = print (''Error reading file '' @ path_str filepath @ '': '' @ msg) w"
    using m by blast
qed

theorem process_file_not_lexically_under_root_witness:
  "\<not> lexically_under \<lparr>absolute = True, segments = [''x.txt'']\<rparr> sample_root \<and>
   exists sample_world \<lparr>absolute = True, segments = [''x.txt'']\<rparr> \<and>
   read_text sample_world \<lparr>absolute = True, segments = [''x.txt'']\<rparr> = Inr ''hello'' \<and>
   markdown (process_file re_match_model \<lparr>absolute = True, segments = [''x.txt'']\<rparr>
               sample_root ''text'' get_default_language_mappings sample_config sample_world)
     = markdown sample_world \<and>
   (\<exists>msg. relative_to \<lparr>absolute = True, segments = [''x.txt'']\<rparr> sample_root
             = Inl (ValueError msg) \<and>
      process_file re_match_model \<lparr>absolute = True, segments = [''x.txt'']\<rparr>
          sample_root ''text'' get_default_language_mappings sample_config sample_world
        = print (''Error reading file /x.txt: '' @ msg) sample_world)"
proof -
  let ?p = "\<lparr>absolute = True, segments = [''x.txt'']\<rparr>"
  have h0: "\<not> lexically_under ?p sample_root"
    by (simp add: lexically_under_def sample_root_def)
  have h1: "exists sample_world ?p"
    by (simp add: exists_def sample_lookup)
  have h2: "\<not> (exclude_files sample_config
      \<and> should_exclude_file ?p (exclude_patterns sample_config))"
    by (simp add: should_exclude_file_def sample_config_def get_default_exclude_patterns_def
        path_name_def lower_def lower_char_def)
  have h3: "read_text sample_world ?p = Inr ''hello''"
    by (simp add: read_text_def sample_lookup)
  have h4: "(if clean_comments sample_config
             then clean_content re_match_model ''hello''
                    (get_language_for_file ?p ''text'' get_default_language_mappings)
                    (comment_patterns sample_config)
             else Inr ''hello'') = Inr ''hello''"
    by (simp add: sample_language sample_config_def clean_content_def)
  have h5: "strip ''hello'' \<noteq> []"
    by (simp add: strip_def is_space_def)
  have s: "path_str ?p = ''/x.txt''"
    by (simp add: path_str_def)
  note t = process_file_not_lexically_under_root
      [OF h0, of re_match_model "''text''" get_default_language_mappings sample_config
        sample_world "''hello''" "''hello''"]
  have a: "markdown (process_file re_match_model ?p sample_root ''text''
      get_default_language_mappings sample_config sample_world) = markdown sample_world"
    using t by blast
  have b: "\<exists>msg. relative_to ?p sample_root = Inl (ValueError msg) \<and>
      process_file re_match_model ?p sample_root ''text'' get_default_language_mappings
          sample_config sample_world
        = print (''Error reading file '' @ path_str ?p @ '': '' @ msg) sample_world"
    using t h1 h2 h3 h4 h5 by blast
  show ?thesis
    using h0 h1 h3 a b by (simp only: s append.simps; simp)
qed

text \<open>
  The claim C8 as it is stated fails: the entry \<open>../x.txt\<close> of the file list is joined to the
  project root \<open>/proj\<close> and names the existing, readable, not excluded file \<open>/x.txt\<close>,
  which is not located under \<open>/proj\<close>; process_file writes a section for it, with the
  relative path \<open>../x.txt\<close>.
\<close>

theorem file_outside_root_is_written_counterexample:
  "path_join sample_root ''../x.txt'' = \<lparr>absolute = True, segments = [''proj'', ''..'', ''x.txt'']\<rparr> \<and>
   location sample_world \<lparr>absolute = True, segments = [''proj'', ''..'', ''x.txt'']\<rparr>
     = Some [''x.txt''] \<and>
   \<not> located_under sample_world \<lparr>absolute = True, segments = [''proj'', ''..'', ''x.txt'']\<rparr>
       sample_root \<and>
   exists sample_world \<lparr>absolute = True, segments = [''proj'', ''..'', ''x.txt'']\<rparr> \<and>
   read_text sample_world \<lparr>absolute = True, segments = [''proj'', ''..'', ''x.txt'']\<rparr>
     = Inr ''hello'' \<and>
   \<not> should_exclude_file \<lparr>absolute = True, segments = [''proj'', ''..'', ''x.txt'']\<rparr>
       (exclude_patterns sample_config) \<and>
   markdown (process_file re_match_model
               \<lparr>absolute = True, segments = [''proj'', ''..'', ''x.txt'']\<rparr>
               sample_root ''text'' get_default_language_mappings sample_config sample_world)
     = [section_text \<lparr>absolute = False, segments = [''..'', ''x.txt'']\<rparr> ''text'' ''hello'']"
proof -
  let ?p = "\<lparr>absolute = True, segments = [''proj'', ''..'', ''x.txt'']\<rparr>"
  have j: "path_join sample_root ''../x.txt'' = ?p"
    by (simp add: path_join_def Path_def sample_root_def)
  have l: "location sample_world ?p = Some [''x.txt'']"
    by (simp add: location_def node_at_def sample_world_def)
  have u: "\<not> located_under sample_world ?p sample_root"
    by (simp add: located_under_def l) (simp add: location_def node_at_def sample_world_def
        sample_root_def)
  have h1: "exists sample_world ?p"
    by (simp add: exists_def sample_lookup)
  have h2: "\<not> should_exclude_file ?p (exclude_patterns sample_config)"
    by (simp add: should_exclude_file_def sample_config_def get_default_exclude_patterns_def
        path_name_def lower_def lower_char_def)
  have h3: "read_text sample_world ?p = Inr ''hello''"
    by (simp add: read_text_def sample_lookup)
  have h4: "clean_content re_match_model ''hello'' ''text'' (comment_patterns sample_config)
     = Inr ''hello''"
    by (simp add: sample_config_def clean_content_def)
  have h5: "strip ''hello'' \<noteq> []"
    by (simp add: strip_def is_space_def)
  have r: "relative_to ?p sample_root = Inr \<lparr>absolute = False, segments = [''..'', ''x.txt'']\<rparr>"
    by (simp add: relative_to_def sample_root_def)
  have c: "clean_comments sample_config"
    by (simp add: sample_config_def)
  have m: "markdown sample_world = []"
    by (simp add: sample_world_def)
  have "process_file re_match_model ?p sample_root ''text'' get_default_language_mappings
          sample_config sample_world
        = write_md (section_text \<lparr>absolute = False, segments = [''..'', ''x.txt'']\<rparr>
                      ''text'' ''hello'') sample_world"
    using h1 h2 h3 h4 h5 r c
    by (simp add: process_file_def process_file_try_def sample_language)
  then have w: "markdown (process_file re_match_model ?p sample_root ''text''
          get_default_language_mappings sample_config sample_world)
        = [section_text \<lparr>absolute = False, segments = [''..'', ''x.txt'']\<rparr> ''text'' ''hello'']"
    by (simp add: m)
  show ?thesis
    by (intro conjI j l u h1 h2 h3 w)
qed

section \<open>Content that is blank after comment stripping\<close>

lemma is_comment_matched:
  assumes "\<forall>p \<in> set ps. \<exists>b. re_match p l = Inr b"
    and "\<exists>p \<in> set ps. re_match p l = Inr True"
  shows "is_comment re_match ps l = Inr True"
  using assms
proof (induction ps)
  case Nil
  then show ?case by simp
next
  case (Cons p ps)
  obtain b where b: "re_match p l = Inr b" using Cons.prems(1) by auto
  show ?case
  proof (cases b)
    case True
    then show ?thesis using b by simp
  next
    case False
    then have "\<exists>q \<in> set ps. re_match q l = Inr True"
      using Cons.prems(2) b by auto
    then have "is_comment re_match ps l = Inr True"
      using Cons.IH Cons.prems(1) by simp
    then show ?thesis using b False by simp
  qed
qed

lemma clean_lines_all_comments:
  "\<forall>l \<in> set lines. is_comment re_match ps l = Inr True \<Longrightarrow>
   clean_lines re_match ps lines acc = Inr (acc @ filter (\<lambda>l. strip l = []) lines)"
  by (induction lines arbitrary: acc) auto

lemma clean_content_all_comments:
  assumes "map_of table lang = Some ps"
    and "\<forall>l \<in> set (split_on newline content).
           (\<forall>p \<in> set ps. \<exists>b. re_match p l = Inr b) \<and> (\<exists>p \<in> set ps. re_match p l = Inr True)"
  shows "clean_content re_match content lang table
           = Inr (join [newline] (filter (\<lambda>l. strip l = []) (split_on newline content)))"
proof -
  obtain l where "l \<in> set (split_on newline content)"
    using split_on_not_Nil [of newline content] by (cases "split_on newline content") auto
  then have ne: "ps \<noteq> []" using assms(2) by auto
  have t: "table \<noteq> []" using assms(1) by auto
  have "\<forall>l \<in> set (split_on newline content). is_comment re_match ps l = Inr True"
    using assms(2) by (simp add: is_comment_matched)
  then have "clean_lines re_match ps (split_on newline content) []
      = Inr (filter (\<lambda>l. strip l = []) (split_on newline content))"
    using clean_lines_all_comments [of "split_on newline content" re_match ps "[]"] by simp
  then show ?thesis
    using assms(1) ne t by (simp add: clean_content_def)
qed

text \<open>
  C5, as amended. An existing file that is not excluded and whose content is empty or
  whitespace-only after the optional comment stripping is reported as skipped and nothing is
  written for it. In particular, when comment stripping is enabled and every line of the
  content is matched by a pattern of the file's language, the stripped content consists of
  the blank lines of the input: it is empty or whitespace-only (empty when no line of the
  input is blank), and the file is skipped.
\<close>

theorem process_file_skips_blank_cleaned_content:
  assumes "exists w filepath"
    and "\<not> (exclude_files fc \<and> should_exclude_file filepath (exclude_patterns fc))"
    and "read_text w filepath = Inr raw"
  shows "((if clean_comments fc
           then clean_content re_match raw
                  (get_language_for_file filepath default_language language_mappings)
                  (comment_patterns fc)
           else Inr raw) = Inr content \<and> strip content = [] \<longrightarrow>
            process_file re_match filepath project_root default_language language_mappings fc w
              = print (''Skipped empty file after cleaning: '' @ path_str filepath) w) \<and>
         (clean_comments fc \<and>
          map_of (comment_patterns fc)
            (get_language_for_file filepath default_language language_mappings) = Some ps \<and>
          (\<forall>l \<in> set (split_on newline raw).
             (\<forall>p \<in> set ps. \<exists>b. re_match p l = Inr b) \<and>
             (\<exists>p \<in> set ps. re_match p l = Inr True)) \<longrightarrow>
            (\<exists>cleaned.
               clean_content re_match raw
                 (get_language_for_file filepath default_language language_mappings)
                 (comment_patterns fc) = Inr cleaned \<and>
               strip cleaned = [] \<and>
               ((\<forall>l \<in> set (split_on newline raw). strip l \<noteq> []) \<longrightarrow> cleaned = [])) \<and>
            process_file re_match filepath project_root default_language language_mappings fc w
              = print (''Skipped empty file after cleaning: '' @ path_str filepath) w)"
proof -
  let ?lang = "get_language_for_file filepath default_language language_mappings"
  have skip: "process_file re_match filepath project_root default_language language_mappings fc w
              = print (''Skipped empty file after cleaning: '' @ path_str filepath) w"
    if "(if clean_comments fc then clean_content re_match raw ?lang (comment_patterns fc)
         else Inr raw) = Inr c" and "strip c = []" for c
    using that assms by (auto simp: process_file_def process_file_try_def)
  have all: "(\<exists>cleaned. clean_content re_match raw ?lang (comment_patterns fc) = Inr cleaned \<and>
               strip cleaned = [] \<and>
               ((\<forall>l \<in> set (split_on newline raw). strip l \<noteq> []) \<longrightarrow> cleaned = [])) \<and>
            process_file re_match filepath project_root default_language language_mappings fc w
              = print (''Skipped empty file after cleaning: '' @ path_str filepath) w"
    if cc: "clean_comments fc"
      and m: "map_of (comment_patterns fc) ?lang = Some ps"
      and a: "\<forall>l \<in> set (split_on newline raw).
             (\<forall>p \<in> set ps. \<exists>b. re_match p l = Inr b) \<and>
             (\<exists>p \<in> set ps. re_match p l = Inr True)"
  proof -
    let ?cleaned = "join [newline] (filter (\<lambda>l. strip l = []) (split_on newline raw))"
    have c: "clean_content re_match raw ?lang (comment_patterns fc) = Inr ?cleaned"
      using clean_content_all_comments [OF m a] .
    have s: "strip ?cleaned = []"
      by (rule strip_join_blank) simp
    have e: "?cleaned = []" if "\<forall>l \<in> set (split_on newline raw). strip l \<noteq> []"
    proof -
      have "filter (\<lambda>l. strip l = []) (split_on newline raw) = []"
        using that by (simp add: filter_empty_conv)
      then show ?thesis by simp
    qed
    have "process_file re_match filepath project_root default_language language_mappings fc w
              = print (''Skipped empty file after cleaning: '' @ path_str filepath) w"
      using skip [of ?cleaned] cc c s by simp
    then show ?thesis using c s e by blast
  qed
  show ?thesis
    using skip all by blast
qed

theorem process_file_skips_blank_cleaned_content_witness:
  "exists sample_world \<lparr>absolute = True, segments = [''proj'', ''all.py'']\<rparr> \<and>
   read_text sample_world \<lparr>absolute = True, segments = [''proj'', ''all.py'']\<rparr>
     = Inr ''# a\<newline># b'' \<and>
   split_on newline ''# a\<newline># b'' = [''# a'', ''# b''] \<and>
   re_match_model hash_comment_pattern ''# a'' = Inr True \<and>
   re_match_model hash_comment_pattern ''# b'' = Inr True \<and>
   (\<exists>cleaned.
      clean_content re_match_model ''# a\<newline># b'' ''python'' (comment_patterns sample_config)
        = Inr cleaned \<and> cleaned = []) \<and>
   process_file re_match_model \<lparr>absolute = True, segments = [''proj'', ''all.py'']\<rparr>
       sample_root ''text'' get_default_language_mappings sample_config sample_world
     = print ''Skipped empty file after cleaning: /proj/all.py'' sample_world"
proof -
  let ?p = "\<lparr>absolute = True, segments = [''proj'', ''all.py'']\<rparr>"
  have h1: "exists sample_world ?p"
    by (simp add: exists_def sample_lookup)
  have h2: "\<not> (exclude_files sample_config
      \<and> should_exclude_file ?p (exclude_patterns sample_config))"
    by (simp add: should_exclude_file_def sample_config_def get_default_exclude_patterns_def
        path_name_def lower_def lower_char_def)
  have h3: "read_text sample_world ?p = Inr ''# a\<newline># b''"
    by (simp add: read_text_def sample_lookup)
  have sp: "split_on newline ''# a\<newline># b'' = [''# a'', ''# b'']"
    by (simp add: newline_def)
  have cc: "clean_comments sample_config"
    by (simp add: sample_config_def)
  have m: "map_of (comment_patterns sample_config)
      (get_language_for_file ?p ''text'' get_default_language_mappings)
      = Some [hash_comment_pattern]"
    by (simp add: sample_language sample_config_def)
  have a: "\<forall>l \<in> set (split_on newline ''# a\<newline># b'').
      (\<forall>p \<in> set [hash_comment_pattern]. \<exists>b. re_match_model p l = Inr b) \<and>
      (\<exists>p \<in> set [hash_comment_pattern]. re_match_model p l = Inr True)"
    unfolding sp by (auto simp: hash_comment_matches)
  have nb: "\<forall>l \<in> set (split_on newline ''# a\<newline># b''). strip l \<noteq> []"
    unfolding sp by (simp add: strip_def is_space_def)
  have s: "path_str ?p = ''/proj/all.py''"
    by (simp add: path_str_def)
  note t = process_file_skips_blank_cleaned_content
      [OF h1 h2 h3, of re_match_model "''text''" get_default_language_mappings "[]"
        sample_root "[hash_comment_pattern]"]
  have r: "(\<exists>cleaned.
      clean_content re_match_model ''# a\<newline># b''
        (get_language_for_file ?p ''text'' get_default_language_mappings)
        (comment_patterns sample_config) = Inr cleaned \<and> cleaned = []) \<and>
      process_file re_match_model ?p sample_root ''text'' get_default_language_mappings
          sample_config sample_world
        = print (''Skipped empty file after cleaning: '' @ path_str ?p) sample_world"
    using t cc m a nb by blast
  show ?thesis
    using h1 h3 sp hash_comment_matches r
    by (simp only: s append.simps sample_language; simp)
qed

text \<open>
  The claim C5 as it is stated fails in its last part: with a pattern that matches
  whitespace, the one line of the content \<open>''  ''\<close> is matched by a pattern, and the
  stripped content is the two spaces, not the empty string (a blank line is kept even
  when a pattern matches it).
\<close>

theorem all_lines_matched_content_not_empty_counterexample:
  "split_on newline ''  '' = [''  ''] \<and>
   re_match_model (Star Space) ''  '' = Inr True \<and>
   clean_content re_match_model ''  '' ''python'' [(''python'', [Star Space])] = Inr ''  '' \<and>
   clean_content re_match_model ''  '' ''python'' [(''python'', [Star Space])] \<noteq> Inr []"
proof -
  have a: "split_on newline ''  '' = [''  '']"
    by (simp add: newline_def)
  have b: "re_match_model (Star Space) ''  '' = Inr True"
    by (simp add: re_match_model_def is_space_def)
  have c: "clean_content re_match_model ''  '' ''python'' [(''python'', [Star Space])] = Inr ''  ''"
    by (simp add: clean_content_def newline_def b strip_def is_space_def)
  show ?thesis
    using a b c by simp
qed

section \<open>The exclude patterns of the configuration\<close>

lemma map_of_section_views:
  "map_of (section_views raw) name
     = (case map_of (sections raw) name of
          None \<Rightarrow> None
        | Some own \<Rightarrow> Some (inherit own (defaults raw)))"
proof -
  have "map_of (map (\<lambda>(n, own). (n, inherit own d)) xs) name
          = (case map_of xs name of None \<Rightarrow> None | Some own \<Rightarrow> Some (inherit own d))"
    for xs :: "(string, (string, string) dict) dict" and d
    by (induction xs) auto
  then show ?thesis by (simp add: section_views_def)
qed

lemma inherit_no_defaults: "inherit own [] = own"
  by (simp add: inherit_def)

lemma read_filtering_config_patterns:
  assumes "config_read parse_ini w config_path = Inr config"
    and "read_filtering_config parse_ini w config_path = Inr fc"
  shows "exclude_patterns fc
           = (case map_of config ''ExcludePatterns'' of
                None \<Rightarrow> get_default_exclude_patterns
              | Some items \<Rightarrow>
                  if map snd items \<noteq> [] then map snd items else get_default_exclude_patterns)"
  using assms
  by (auto simp: read_filtering_config_def Let_def split: sum.splits option.splits prod.splits)

text \<open>
  C6, as amended. The entries that count are the items of the section \<open>[ExcludePatterns]\<close>
  as \<open>ConfigParser\<close> forms them: the section's own entries followed by the entries it
  inherits from \<open>[DEFAULT]\<close>. When the section is present and has at least one item, the
  exclude patterns that read_filtering_config returns are the values of these items in
  order and nothing else; when the section is missing, or is present with no entry of its
  own and nothing to inherit, they are the built-in default patterns. For a configuration
  without entries in \<open>[DEFAULT]\<close> the items are the section's own entries.
  (read_filtering_config returns whenever the configuration can be parsed and has no
  section \<open>[Filtering]\<close>, whose values can raise ValueError.)
\<close>

theorem read_filtering_config_exclude_patterns:
  assumes "config_read parse_ini w config_path = Inr (section_views raw)"
  shows "(read_filtering_config parse_ini w config_path = Inr fc \<longrightarrow>
            (\<forall>own. map_of (sections raw) ''ExcludePatterns'' = Some own \<and>
                   inherit own (defaults raw) \<noteq> [] \<longrightarrow>
               exclude_patterns fc = map snd (inherit own (defaults raw))) \<and>
            (map_of (sections raw) ''ExcludePatterns'' = None \<or>
             map_of (sections raw) ''ExcludePatterns'' = Some [] \<and> defaults raw = [] \<longrightarrow>
               exclude_patterns fc = get_default_exclude_patterns) \<and>
            (\<forall>own. defaults raw = [] \<and>
                   map_of (sections raw) ''ExcludePatterns'' = Some own \<and> own \<noteq> [] \<longrightarrow>
               exclude_patterns fc = map snd own)) \<and>
         (map_of (sections raw) ''Filtering'' = None \<longrightarrow>
            (\<exists>fc'. read_filtering_config parse_ini w config_path = Inr fc'))"
proof (intro conjI impI allI)
  fix own
  assume r: "read_filtering_config parse_ini w config_path = Inr fc"
    and i: "map_of (sections raw) ''ExcludePatterns'' = Some own \<and>
            inherit own (defaults raw) \<noteq> []"
  show "exclude_patterns fc = map snd (inherit own (defaults raw))"
    using read_filtering_config_patterns [OF assms r] i
    by (simp add: map_of_section_views)
next
  assume r: "read_filtering_config parse_ini w config_path = Inr fc"
    and i: "map_of (sections raw) ''ExcludePatterns'' = None \<or>
            map_of (sections raw) ''ExcludePatterns'' = Some [] \<and> defaults raw = []"
  show "exclude_patterns fc = get_default_exclude_patterns"
    using read_filtering_config_patterns [OF assms r] i
    by (auto simp: map_of_section_views inherit_def)
next
  fix own
  assume r: "read_filtering_config parse_ini w config_path = Inr fc"
    and i: "defaults raw = [] \<and>
            map_of (sections raw) ''ExcludePatterns'' = Some own \<and> own \<noteq> []"
  show "exclude_patterns fc = map snd own"
    using read_filtering_config_patterns [OF assms r] i
    by (simp add: map_of_section_views inherit_no_defaults)
next
  assume "map_of (sections raw) ''Filtering'' = None"
  then have "map_of (section_views raw) ''Filtering'' = None"
    by (simp add: map_of_section_views)
  then show "\<exists>fc'. read_filtering_config parse_ini w config_path = Inr fc'"
    using assms by (simp add: read_filtering_config_def)
qed

theorem read_filtering_config_exclude_patterns_witness:
  "(\<exists>fc. read_filtering_config
            (\<lambda>text. Inr (section_views
               \<lparr>defaults = [],
                sections = [(''Settings'', [(''project_root'', ''/proj'')]),
                            (''ExcludePatterns'', [(''backup'', ''.bak''), (''swap'', ''.swp'')])]\<rparr>))
            sample_world \<lparr>absolute = True, segments = [''pd'', ''config.ini'']\<rparr> = Inr fc \<and>
          exclude_patterns fc = [''.bak'', ''.swp'']) \<and>
   (\<exists>fc. read_filtering_config
            (\<lambda>text. Inr (section_views
               \<lparr>defaults = [(''swap'', ''.swp'')],
                sections = [(''Settings'', [(''project_root'', ''/proj'')]),
                            (''ExcludePatterns'', [(''backup'', ''.bak'')])]\<rparr>))
            sample_world \<lparr>absolute = True, segments = [''pd'', ''config.ini'']\<rparr> = Inr fc \<and>
          exclude_patterns fc = [''.bak'', ''.swp'']) \<and>
   (\<exists>fc. read_filtering_config
            (\<lambda>text. Inr (section_views
               \<lparr>defaults = [],
                sections = [(''Settings'', [(''project_root'', ''/proj'')]),
                            (''ExcludePatterns'', [])]\<rparr>))
            sample_world \<lparr>absolute = True, segments = [''pd'', ''config.ini'']\<rparr> = Inr fc \<and>
          exclude_patterns fc = get_default_exclude_patterns)"
proof -
  let ?p = "\<lparr>absolute = True, segments = [''pd'', ''config.ini'']\<rparr>"
  let ?r1 = "\<lparr>defaults = [],
              sections = [(''Settings'', [(''project_root'', ''/proj'')]),
                          (''ExcludePatterns'', [(''backup'', ''.bak''), (''swap'', ''.swp'')])]\<rparr>"
  let ?r2 = "\<lparr>defaults = [(''swap'', ''.swp'')],
              sections = [(''Settings'', [(''project_root'', ''/proj'')]),
                          (''ExcludePatterns'', [(''backup'', ''.bak'')])]\<rparr>"
  let ?r3 = "\<lparr>defaults = [],
              sections = [(''Settings'', [(''project_root'', ''/proj'')]),
                          (''ExcludePatterns'', [] :: (string, string) dict)]\<rparr>"
  have l: "lookup sample_world ?p = Some (File ''[Filtering]'')"
    by (simp add: lookup_def location_def node_at_def sample_world_def)
  have c: "config_read (\<lambda>text. Inr (section_views raw)) sample_world ?p = Inr (section_views raw)"
    for raw
    by (simp add: config_read_def read_text_def l)
  have f1: "map_of (sections ?r1) ''Filtering'' = None" by simp
  have f2: "map_of (sections ?r2) ''Filtering'' = None" by simp
  have f3: "map_of (sections ?r3) ''Filtering'' = None" by simp
  have e1: "defaults ?r1 = [] \<and>
            map_of (sections ?r1) ''ExcludePatterns''
              = Some [(''backup'', ''.bak''), (''swap'', ''.swp'')] \<and>
            [(''backup'', ''.bak''), (''swap'', ''.swp'')] \<noteq> []"
    by simp
  have e2: "map_of (sections ?r2) ''ExcludePatterns'' = Some [(''backup'', ''.bak'')] \<and>
            inherit [(''backup'', ''.bak'')] (defaults ?r2) \<noteq> []"
    by (simp add: inherit_def)
  have i2: "map snd (inherit [(''backup'', ''.bak'')] (defaults ?r2)) = [''.bak'', ''.swp'']"
    by (simp add: inherit_def)
  have e3: "map_of (sections ?r3) ''ExcludePatterns'' = Some [] \<and> defaults ?r3 = []"
    by simp
  obtain fc1 where a1: "read_filtering_config (\<lambda>text. Inr (section_views ?r1)) sample_world ?p
      = Inr fc1"
    using read_filtering_config_exclude_patterns [OF c [of ?r1]] f1 by blast
  have b1: "exclude_patterns fc1 = map snd [(''backup'', ''.bak''), (''swap'', ''.swp'')]"
    using read_filtering_config_exclude_patterns [OF c [of ?r1], of fc1] a1 e1 by blast
  obtain fc2 where a2: "read_filtering_config (\<lambda>text. Inr (section_views ?r2)) sample_world ?p
      = Inr fc2"
    using read_filtering_config_exclude_patterns [OF c [of ?r2]] f2 by blast
  have b2: "exclude_patterns fc2 = map snd (inherit [(''backup'', ''.bak'')] (defaults ?r2))"
    using read_filtering_config_exclude_patterns [OF c [of ?r2], of fc2] a2 e2 by blast
  obtain fc3 where a3: "read_filtering_config (\<lambda>text. Inr (section_views ?r3)) sample_world ?p
      = Inr fc3"
    using read_filtering_config_exclude_patterns [OF c [of ?r3]] f3 by blast
  have b3: "exclude_patterns fc3 = get_default_exclude_patterns"
    using read_filtering_config_exclude_patterns [OF c [of ?r3], of fc3] a3 e3 by blast
  have g1: "\<exists>fc. read_filtering_config (\<lambda>text. Inr (section_views ?r1)) sample_world ?p = Inr fc \<and>
          exclude_patterns fc = [''.bak'', ''.swp'']"
    using a1 b1 by simp
  have g2: "\<exists>fc. read_filtering_config (\<lambda>text. Inr (section_views ?r2)) sample_world ?p = Inr fc \<and>
          exclude_patterns fc = [''.bak'', ''.swp'']"
    using a2 b2 i2 by simp
  have g3: "\<exists>fc. read_filtering_config (\<lambda>text. Inr (section_views ?r3)) sample_world ?p = Inr fc \<and>
          exclude_patterns fc = get_default_exclude_patterns"
    using a3 b3 by simp
  show ?thesis
    by (intro conjI g1 g2 g3)
qed

text \<open>
  The claim C6 as it is stated fails for a configuration with an entry \<open>x = y\<close> in
  \<open>[DEFAULT]\<close>. A section \<open>[ExcludePatterns]\<close> that is present and empty inherits the
  entry: the exclude patterns are \<open>y\<close> alone, not the built-in default patterns. A section
  with the one entry \<open>backup = .bak\<close> gives the patterns \<open>.bak\<close> and \<open>y\<close>, not exactly
  the section's own values.
\<close>

theorem default_section_entries_are_exclude_patterns_counterexample:
  "map_of (sections
      \<lparr>defaults = [(''x'', ''y'')],
       sections = [(''Settings'', [(''project_root'', ''/proj'')]), (''ExcludePatterns'', [])]\<rparr>)
      ''ExcludePatterns'' = Some [] \<and>
   (\<exists>fc. read_filtering_config
            (\<lambda>text. Inr (section_views
               \<lparr>defaults = [(''x'', ''y'')],
                sections = [(''Settings'', [(''project_root'', ''/proj'')]),
                            (''ExcludePatterns'', [])]\<rparr>))
            sample_world \<lparr>absolute = True, segments = [''pd'', ''config.ini'']\<rparr> = Inr fc \<and>
          exclude_patterns fc = [''y''] \<and>
          exclude_patterns fc \<noteq> get_default_exclude_patterns) \<and>
   map_of (sections
      \<lparr>defaults = [(''x'', ''y'')],
       sections = [(''Settings'', [(''project_root'', ''/proj'')]),
                   (''ExcludePatterns'', [(''backup'', ''.bak'')])]\<rparr>)
      ''ExcludePatterns'' = Some [(''backup'', ''.bak'')] \<and>
   (\<exists>fc. read_filtering_config
            (\<lambda>text. Inr (section_views
               \<lparr>defaults = [(''x'', ''y'')],
                sections = [(''Settings'', [(''project_root'', ''/proj'')]),
                            (''ExcludePatterns'', [(''backup'', ''.bak'')])]\<rparr>))
            sample_world \<lparr>absolute = True, segments = [''pd'', ''config.ini'']\<rparr> = Inr fc \<and>
          exclude_patterns fc = [''.bak'', ''y''] \<and>
          exclude_patterns fc \<noteq> map snd [(''backup'', ''.bak'')])"
proof -
  let ?p = "\<lparr>absolute = True, segments = [''pd'', ''config.ini'']\<rparr>"
  let ?r1 = "\<lparr>defaults = [(''x'', ''y'')],
              sections = [(''Settings'', [(''project_root'', ''/proj'')]),
                          (''ExcludePatterns'', [] :: (string, string) dict)]\<rparr>"
  let ?r2 = "\<lparr>defaults = [(''x'', ''y'')],
              sections = [(''Settings'', [(''project_root'', ''/proj'')]),
                          (''ExcludePatterns'', [(''backup'', ''.bak'')])]\<rparr>"
  have l: "lookup sample_world ?p = Some (File ''[Filtering]'')"
    by (simp add: lookup_def location_def node_at_def sample_world_def)
  have v1: "section_views ?r1
      = [(''Settings'', [(''project_root'', ''/proj''), (''x'', ''y'')]),
         (''ExcludePatterns'', [(''x'', ''y'')])]"
    by (simp add: section_views_def inherit_def)
  have v2: "section_views ?r2
      = [(''Settings'', [(''project_root'', ''/proj''), (''x'', ''y'')]),
         (''ExcludePatterns'', [(''backup'', ''.bak''), (''x'', ''y'')])]"
    by (simp add: section_views_def inherit_def)
  have a1: "read_filtering_config (\<lambda>text. Inr (section_views ?r1)) sample_world ?p
      = Inr \<lparr>exclude_files = True, clean_comments = True, exclude_patterns = [''y''],
             comment_patterns = get_default_comment_patterns\<rparr>"
    unfolding v1 by (simp add: read_filtering_config_def config_read_def read_text_def l)
  have a2: "read_filtering_config (\<lambda>text. Inr (section_views ?r2)) sample_world ?p
      = Inr \<lparr>exclude_files = True, clean_comments = True, exclude_patterns = [''.bak'', ''y''],
             comment_patterns = get_default_comment_patterns\<rparr>"
    unfolding v2 by (simp add: read_filtering_config_def config_read_def read_text_def l)
  have n1: "[''y''] \<noteq> get_default_exclude_patterns"
    by (simp add: get_default_exclude_patterns_def)
  have g1: "\<exists>fc. read_filtering_config (\<lambda>text. Inr (section_views ?r1)) sample_world ?p = Inr fc \<and>
          exclude_patterns fc = [''y''] \<and> exclude_patterns fc \<noteq> get_default_exclude_patterns"
    using a1 n1 by simp
  have g2: "\<exists>fc. read_filtering_config (\<lambda>text. Inr (section_views ?r2)) sample_world ?p = Inr fc \<and>
          exclude_patterns fc = [''.bak'', ''y''] \<and>
          exclude_patterns fc \<noteq> map snd [(''backup'', ''.bak'')]"
    using a2 by simp
  have s1: "map_of (sections ?r1) ''ExcludePatterns'' = Some []" by simp
  have s2: "map_of (sections ?r2) ''ExcludePatterns'' = Some [(''backup'', ''.bak'')]" by simp
  show ?thesis
    by (intro conjI s1 g1 s2 g2)
qed

section \<open>A configuration without a Settings section\<close>

text \<open>
  C7. When the project directory and its two input files exist and the configuration has no
  section \<open>[Settings]\<close>, read_ini_config raises the ValueError, and main prints its message
  after \<open>Error:\<close> and ends with exit code 1; the file system is as it was before, so no
  output document was created, and nothing was written.
\<close>

theorem main_missing_settings_section:
  assumes "exists w (resolve w (Path (arg_project_dir a)))"
    and "is_dir w (resolve w (Path (arg_project_dir a)))"
    and "exists w (path_join (resolve w (Path (arg_project_dir a))) ''config.ini'')"
    and "exists w (path_join (resolve w (Path (arg_project_dir a))) ''files.txt'')"
    and "config_read parse_ini w
           (path_join (resolve w (Path (arg_project_dir a))) ''config.ini'') = Inr config"
    and "map_of config ''Settings'' = None"
  shows "read_ini_config parse_ini w
           (path_join (resolve w (Path (arg_project_dir a))) ''config.ini'')
           = Inl (ValueError ''Missing 'Settings' section in config.ini file'') \<and>
         main re_match parse_ini a w
           = (1, print ''Error: Missing 'Settings' section in config.ini file'' w) \<and>
         files (snd (main re_match parse_ini a w)) = files w \<and>
         markdown (snd (main re_match parse_ini a w)) = markdown w"
proof -
  let ?pd = "resolve w (Path (arg_project_dir a))"
  have r: "read_ini_config parse_ini w (path_join ?pd ''config.ini'')
           = Inl (ValueError ''Missing 'Settings' section in config.ini file'')"
    using assms(5,6) by (simp add: read_ini_config_def)
  then have t: "main_try re_match parse_ini a ?pd (path_join ?pd ''config.ini'')
                  (path_join ?pd ''files.txt'') w
                = (Raised (ValueError ''Missing 'Settings' section in config.ini file''), w)"
    by (simp add: main_try_def)
  have m: "main re_match parse_ini a w
           = (1, print ''Error: Missing 'Settings' section in config.ini file'' w)"
    using assms(1-4) t by (simp add: main_def Let_def)
  show ?thesis
    using r m by (simp add: print_def)
qed

theorem main_missing_settings_section_witness:
  "exists sample_world (resolve sample_world (Path ''/pd'')) \<and>
   is_dir sample_world (resolve sample_world (Path ''/pd'')) \<and>
   exists sample_world (path_join (resolve sample_world (Path ''/pd'')) ''config.ini'') \<and>
   exists sample_world (path_join (resolve sample_world (Path ''/pd'')) ''files.txt'') \<and>
   config_read (\<lambda>text. Inr [(''Filtering'', [(''clean_comments'', ''no'')])]) sample_world
       (path_join (resolve sample_world (Path ''/pd'')) ''config.ini'')
     = Inr [(''Filtering'', [(''clean_comments'', ''no'')])] \<and>
   map_of [(''Filtering'', [(''clean_comments'', ''no'')])] ''Settings'' = None \<and>
   main (\<lambda>pattern line. Inr False) (\<lambda>text. Inr [(''Filtering'', [(''clean_comments'', ''no'')])])
       \<lparr>arg_project_dir = ''/pd'', arg_language = None\<rparr> sample_world
     = (1, print ''Error: Missing 'Settings' section in config.ini file'' sample_world) \<and>
   files (snd (main (\<lambda>pattern line. Inr False) (\<lambda>text. Inr [(''Filtering'', [(''clean_comments'', ''no'')])])
       \<lparr>arg_project_dir = ''/pd'', arg_language = None\<rparr> sample_world))
     = files sample_world"
proof -
  let ?c = "[(''Filtering'', [(''clean_comments'', ''no'')])]"
  let ?a = "\<lparr>arg_project_dir = ''/pd'', arg_language = None\<rparr>"
  have pd: "resolve sample_world (Path (arg_project_dir ?a)) = \<lparr>absolute = True, segments = [''pd'']\<rparr>"
    by (simp add: resolve_def Path_def)
  have j1: "path_join \<lparr>absolute = True, segments = [''pd'']\<rparr> ''config.ini''
      = \<lparr>absolute = True, segments = [''pd'', ''config.ini'']\<rparr>"
    by (simp add: path_join_def Path_def)
  have j2: "path_join \<lparr>absolute = True, segments = [''pd'']\<rparr> ''files.txt''
      = \<lparr>absolute = True, segments = [''pd'', ''files.txt'']\<rparr>"
    by (simp add: path_join_def Path_def)
  have l0: "lookup sample_world \<lparr>absolute = True, segments = [''pd'']\<rparr> = Some Directory"
    by (simp add: lookup_def location_def node_at_def sample_world_def)
  have l1: "lookup sample_world \<lparr>absolute = True, segments = [''pd'', ''config.ini'']\<rparr>
      = Some (File ''[Filtering]'')"
    by (simp add: lookup_def location_def node_at_def sample_world_def)
  have l2: "lookup sample_world \<lparr>absolute = True, segments = [''pd'', ''files.txt'']\<rparr>
      = Some (File ''a.py'')"
    by (simp add: lookup_def location_def node_at_def sample_world_def)
  have h1: "exists sample_world (resolve sample_world (Path (arg_project_dir ?a)))"
    by (simp only: pd) (simp add: exists_def l0)
  have h2: "is_dir sample_world (resolve sample_world (Path (arg_project_dir ?a)))"
    by (simp only: pd) (simp add: is_dir_def l0)
  have h3: "exists sample_world
      (path_join (resolve sample_world (Path (arg_project_dir ?a))) ''config.ini'')"
    by (simp only: pd j1) (simp add: exists_def l1)
  have h4: "exists sample_world
      (path_join (resolve sample_world (Path (arg_project_dir ?a))) ''files.txt'')"
    by (simp only: pd j2) (simp add: exists_def l2)
  have h5: "config_read (\<lambda>text. Inr ?c) sample_world
      (path_join (resolve sample_world (Path (arg_project_dir ?a))) ''config.ini'') = Inr ?c"
    by (simp only: pd j1) (simp add: config_read_def read_text_def l1)
  have h6: "map_of ?c ''Settings'' = None"
    by simp
  note t = main_missing_settings_section [OF h1 h2 h3 h4 h5 h6, of "\<lambda>pattern line. Inr False"]
  have e: "arg_project_dir ?a = ''/pd''" by simp
  show ?thesis
    using h1 h2 h3 h4 h5 h6 t unfolding e by blast
qed

section \<open>The model of re.match finds exactly the matches of a prefix\<close>

lemma matches_forward: "matches s r i j \<Longrightarrow> i \<le> j"
  by (induction rule: matches.induct) auto

lemma matches_inside: "matches s r i j \<Longrightarrow> i \<le> length s \<Longrightarrow> j \<le> length s"
  by (induction rule: matches.induct) auto

lemma star_ends_sound:
  assumes "\<And>i j. j \<in> set (step i) \<Longrightarrow> matches s r i j"
  shows "j \<in> set (star_ends step fuel i) \<Longrightarrow> matches s (Star r) i j"
proof (induction fuel arbitrary: i)
  case 0
  then show ?case by (simp add: matches_Star_none)
next
  case (Suc fuel)
  then have "j = i \<or> (\<exists>k \<in> set (step i). j \<in> set (star_ends step fuel k))"
    by auto
  then show ?case
  proof
    assume "j = i"
    then show ?thesis by (simp add: matches_Star_none)
  next
    assume "\<exists>k \<in> set (step i). j \<in> set (star_ends step fuel k)"
    then obtain k where k: "k \<in> set (step i)" and j: "j \<in> set (star_ends step fuel k)"
      by blast
    show ?thesis
      using matches_Star_more [OF assms [OF k] Suc.IH [OF j]] .
  qed
qed

lemma ends_sound: "j \<in> set (ends r s i) \<Longrightarrow> matches s r i j"
proof (induction r arbitrary: i j)
  case (Seq r1 r2)
  then obtain k where "k \<in> set (ends r1 s i)" and "j \<in> set (ends r2 s k)"
    by auto
  then show ?case
    using Seq.IH by (blast intro: matches_Seq)
next
  case (Alt r1 r2)
  then show ?case
    by (auto intro: matches_Alt1 matches_Alt2)
next
  case (Star r)
  then have "j \<in> set (star_ends (ends r s) (length s - i) i)"
    by simp
  then show ?case
    using star_ends_sound [of "ends r s" s r j "length s - i" i] Star.IH by blast
qed (auto split: if_splits intro: matches.intros)

lemma star_ends_fuel:
  "n \<le> n' \<Longrightarrow> j \<in> set (star_ends step n i) \<Longrightarrow> j \<in> set (star_ends step n' i)"
proof (induction n arbitrary: n' i)
  case 0
  then show ?case by (cases n') auto
next
  case (Suc n)
  then obtain m where m: "n' = Suc m" and le: "n \<le> m"
    by (cases n') auto
  from Suc.prems(2) have "j = i \<or> (\<exists>k \<in> set (step i). i < k \<and> j \<in> set (star_ends step n k))"
    by auto
  then show ?case
  proof
    assume "j = i"
    then show ?thesis using m by simp
  next
    assume "\<exists>k \<in> set (step i). i < k \<and> j \<in> set (star_ends step n k)"
    then obtain k where "k \<in> set (step i)" "i < k" "j \<in> set (star_ends step n k)"
      by blast
    then show ?thesis
      using Suc.IH [OF le] m by auto
  qed
qed

lemma star_ends_self: "i \<in> set (star_ends step fuel i)"
  by (cases fuel) auto

lemma ends_complete: "matches s r i j \<Longrightarrow> i \<le> length s \<Longrightarrow> j \<in> set (ends r s i)"
proof (induction rule: matches.induct)
  case (matches_Seq r1 i k r2 j)
  then have "k \<le> length s" using matches_inside by blast
  then show ?case using matches_Seq by auto
next
  case (matches_Star_none r i)
  then show ?case by (simp add: star_ends_self)
next
  case (matches_Star_more r i k j)
  have k: "k \<le> length s" using matches_Star_more matches_inside by blast
  have ik: "i \<le> k" using matches_Star_more matches_forward by blast
  have a: "k \<in> set (ends r s i)" using matches_Star_more by simp
  have b: "j \<in> set (star_ends (ends r s) (length s - k) k)"
    using matches_Star_more k by simp
  show ?case
  proof (cases "i = k")
    case True
    then show ?thesis using b by simp
  next
    case False
    then have lt: "i < k" using ik by simp
    then obtain n where n: "length s - i = Suc n" and le: "length s - k \<le> n"
      using k by (cases "length s - i") auto
    have "j \<in> set (star_ends (ends r s) n k)"
      using star_ends_fuel [OF le b] .
    then show ?thesis
      using n a lt by auto
  qed
qed auto

lemma ends_nonempty_iff: "ends pattern line 0 \<noteq> [] \<longleftrightarrow> (\<exists>j. matches line pattern 0 j)"
proof
  assume "ends pattern line 0 \<noteq> []"
  then obtain j where "j \<in> set (ends pattern line 0)"
    by (cases "ends pattern line 0") auto
  then show "\<exists>j. matches line pattern 0 j"
    using ends_sound by blast
next
  assume "\<exists>j. matches line pattern 0 j"
  then obtain j where "matches line pattern 0 j" by blast
  then have "j \<in> set (ends pattern line 0)"
    by (simp add: ends_complete)
  then show "ends pattern line 0 \<noteq> []" by auto
qed

text \<open>
  The model of \<open>re.match\<close> returns a match exactly when the pattern matches some prefix of
  the line, and the model of \<open>re.fullmatch\<close> exactly when it matches the whole line.
\<close>

theorem re_match_model_prefix:
  "re_match_model pattern line = Inr (\<exists>j. matches line pattern 0 j) \<and>
   (re_fullmatch_model pattern line \<longleftrightarrow> matches line pattern 0 (length line))"
proof -
  have "length line \<in> set (ends pattern line 0) \<longleftrightarrow> matches line pattern 0 (length line)"
    using ends_sound [of "length line" pattern line 0] ends_complete [of line pattern 0 "length line"]
    by auto
  then show ?thesis
    by (simp add: re_match_model_def re_fullmatch_model_def ends_nonempty_iff)
qed

section \<open>Which lines clean_content drops\<close>

lemma is_comment_total:
  "\<forall>p \<in> set ps. re_match p l = Inr (m p l) \<Longrightarrow>
   is_comment re_match ps l = Inr (\<exists>p \<in> set ps. m p l)"
  by (induction ps) (auto split: bool.splits)

lemma clean_lines_total:
  "\<forall>l \<in> set lines. \<forall>p \<in> set ps. re_match p l = Inr (m p l) \<Longrightarrow>
   clean_lines re_match ps lines acc
     = Inr (acc @ filter (\<lambda>l. strip l = [] \<or> \<not> (\<exists>p \<in> set ps. m p l)) lines)"
proof (induction lines arbitrary: acc)
  case Nil
  then show ?case by simp
next
  case (Cons line lines)
  have c: "is_comment re_match ps line = Inr (\<exists>p \<in> set ps. m p line)"
    using Cons.prems by (simp add: is_comment_total)
  have r: "\<forall>l \<in> set lines. \<forall>p \<in> set ps. re_match p l = Inr (m p l)"
    using Cons.prems by simp
  show ?case
    using c Cons.IH [OF r] by simp
qed

lemma clean_content_equation:
  assumes "\<forall>l \<in> set (split_on newline content).
             \<forall>p \<in> set (case map_of table lang of None \<Rightarrow> [] | Some ps \<Rightarrow> ps).
               re_match p l = Inr (m p l)"
  shows "clean_content re_match content lang table
           = Inr (join [newline]
                    (filter (\<lambda>l. strip l = [] \<or>
                               \<not> (\<exists>p \<in> set (case map_of table lang of None \<Rightarrow> [] | Some ps \<Rightarrow> ps).
                                    m p l))
                       (split_on newline content)))"
proof (cases "table = [] \<or> (case map_of table lang of None \<Rightarrow> [] | Some ps \<Rightarrow> ps) = []")
  case True
  then have e: "(case map_of table lang of None \<Rightarrow> [] | Some ps \<Rightarrow> ps) = []"
    by auto
  have "clean_content re_match content lang table = Inr content"
    using True by (auto simp: clean_content_def)
  then show ?thesis
    by (simp add: e join_split_on)
next
  case False
  have "clean_lines re_match (case map_of table lang of None \<Rightarrow> [] | Some ps \<Rightarrow> ps)
          (split_on newline content) []
      = Inr (filter (\<lambda>l. strip l = [] \<or>
                        \<not> (\<exists>p \<in> set (case map_of table lang of None \<Rightarrow> [] | Some ps \<Rightarrow> ps).
                             m p l))
               (split_on newline content))"
    using clean_lines_total [OF assms, of "[]"] by simp
  then show ?thesis
    using False by (simp add: clean_content_def)
qed

text \<open>
  C2, as amended. For every content string, language tag and comment-pattern table:
  when \<open>re.match\<close> raises on none of the patterns of the language, clean_content drops a
  physical line exactly when the line is not blank and \<open>re.match\<close> finds a match for some
  configured pattern of the language; the lines kept stay in their order. \<open>re.match\<close>
  anchors a match at the start of the line and not at its end: with the model of
  \<open>re.match\<close> on parsed patterns, a line is dropped exactly when it is not blank and some
  prefix of it, from the line start, is matched by a configured pattern, so that a line
  that is not blank and has only a proper prefix matching a configured pattern is dropped.
\<close>

theorem clean_content_drops_matched_lines:
  "((\<forall>l \<in> set (split_on newline content).
       \<forall>p \<in> set (case map_of table lang of None \<Rightarrow> [] | Some ps \<Rightarrow> ps).
         re_match p l = Inr (m p l)) \<longrightarrow>
      clean_content re_match content lang table
        = Inr (join [newline]
                 (filter (\<lambda>l. strip l = [] \<or>
                            \<not> (\<exists>p \<in> set (case map_of table lang of None \<Rightarrow> [] | Some ps \<Rightarrow> ps).
                                 m p l))
                    (split_on newline content)))) \<and>
   clean_content re_match_model content lang parsed_table
     = Inr (join [newline]
              (filter (\<lambda>l. strip l = [] \<or>
                         \<not> (\<exists>p \<in> set (case map_of parsed_table lang of
                                          None \<Rightarrow> [] | Some ps \<Rightarrow> ps).
                              \<exists>j. matches l p 0 j))
                 (split_on newline content)))"
proof (intro conjI impI)
  assume "\<forall>l \<in> set (split_on newline content).
       \<forall>p \<in> set (case map_of table lang of None \<Rightarrow> [] | Some ps \<Rightarrow> ps).
         re_match p l = Inr (m p l)"
  then show "clean_content re_match content lang table
        = Inr (join [newline]
                 (filter (\<lambda>l. strip l = [] \<or>
                            \<not> (\<exists>p \<in> set (case map_of table lang of None \<Rightarrow> [] | Some ps \<Rightarrow> ps).
                                 m p l))
                    (split_on newline content)))"
    by (rule clean_content_equation)
next
  have a: "\<forall>l \<in> set (split_on newline content).
       \<forall>p \<in> set (case map_of parsed_table lang of None \<Rightarrow> [] | Some ps \<Rightarrow> ps).
         re_match_model p l = Inr ((\<lambda>p l. \<exists>j. matches l p 0 j) p l)"
    by (simp add: re_match_model_def ends_nonempty_iff)
  show "clean_content re_match_model content lang parsed_table
     = Inr (join [newline]
              (filter (\<lambda>l. strip l = [] \<or>
                         \<not> (\<exists>p \<in> set (case map_of parsed_table lang of
                                          None \<Rightarrow> [] | Some ps \<Rightarrow> ps).
                              \<exists>j. matches l p 0 j))
                 (split_on newline content)))"
    using clean_content_equation [OF a] by simp
qed

theorem clean_content_drops_matched_lines_witness:
  "split_on newline ''# a\<newline>x = 1'' = [''# a'', ''x = 1''] \<and>
   re_match_model hash_comment_pattern ''# a'' = Inr True \<and>
   re_match_model hash_comment_pattern ''x = 1'' = Inr False \<and>
   clean_content re_match_model ''# a\<newline>x = 1'' ''python'' [(''python'', [hash_comment_pattern])]
     = Inr (join [newline]
              (filter (\<lambda>l. strip l = [] \<or>
                         \<not> (\<exists>p \<in> set (case map_of [(''python'', [hash_comment_pattern])] ''python'' of
                                          None \<Rightarrow> [] | Some ps \<Rightarrow> ps).
                              ends p l 0 \<noteq> []))
                 (split_on newline ''# a\<newline>x = 1''))) \<and>
   clean_content re_match_model ''# a\<newline>x = 1'' ''python'' [(''python'', [hash_comment_pattern])]
     = Inr ''x = 1'' \<and>
   clean_content re_match_model ''// note\<newline>x = 1'' ''javascript''
       [(''javascript'', [Seq (Lit (CHR ''/'')) (Lit (CHR ''/''))])]
     = Inr (join [newline]
              (filter (\<lambda>l. strip l = [] \<or>
                         \<not> (\<exists>p \<in> set (case map_of
                                            [(''javascript'',
                                              [Seq (Lit (CHR ''/'')) (Lit (CHR ''/''))])]
                                            ''javascript'' of
                                          None \<Rightarrow> [] | Some ps \<Rightarrow> ps).
                              \<exists>j. matches l p 0 j))
                 (split_on newline ''// note\<newline>x = 1'')))"
proof -
  let ?t = "[(''python'', [hash_comment_pattern])]"
  let ?u = "[(''javascript'', [Seq (Lit (CHR ''/'')) (Lit (CHR ''/''))])]"
  have h: "\<forall>l \<in> set (split_on newline ''# a\<newline>x = 1'').
             \<forall>p \<in> set (case map_of ?t ''python'' of None \<Rightarrow> [] | Some ps \<Rightarrow> ps).
               re_match_model p l = Inr (ends p l 0 \<noteq> [])"
    by (simp add: re_match_model_def)
  have sp: "split_on newline ''# a\<newline>x = 1'' = [''# a'', ''x = 1'']"
    by (simp add: newline_def)
  have m1: "ends hash_comment_pattern ''# a'' 0 \<noteq> []"
    by (simp add: hash_comment_pattern_def)
  have m2: "ends hash_comment_pattern ''x = 1'' 0 = []"
    by (simp add: hash_comment_pattern_def)
  have s1: "strip ''# a'' \<noteq> []"
    by (simp add: strip_def is_space_def)
  note t = clean_content_drops_matched_lines
      [of "''# a\<newline>x = 1''" ?t "''python''" re_match_model "\<lambda>p l. ends p l 0 \<noteq> []" ?u]
  note t' = clean_content_drops_matched_lines
      [of "''// note\<newline>x = 1''" ?t "''javascript''" re_match_model "\<lambda>p l. ends p l 0 \<noteq> []" ?u]
  have a: "clean_content re_match_model ''# a\<newline>x = 1'' ''python'' ?t
     = Inr (join [newline]
              (filter (\<lambda>l. strip l = [] \<or>
                         \<not> (\<exists>p \<in> set (case map_of ?t ''python'' of None \<Rightarrow> [] | Some ps \<Rightarrow> ps).
                              ends p l 0 \<noteq> []))
                 (split_on newline ''# a\<newline>x = 1'')))"
    using t h by blast
  have v: "join [newline]
              (filter (\<lambda>l. strip l = [] \<or>
                         \<not> (\<exists>p \<in> set (case map_of ?t ''python'' of None \<Rightarrow> [] | Some ps \<Rightarrow> ps).
                              ends p l 0 \<noteq> []))
                 (split_on newline ''# a\<newline>x = 1'')) = ''x = 1''"
    unfolding sp using m1 m2 s1 by simp
  have b: "clean_content re_match_model ''# a\<newline>x = 1'' ''python'' ?t = Inr ''x = 1''"
    using a v by simp
  have c: "clean_content re_match_model ''// note\<newline>x = 1'' ''javascript'' ?u
     = Inr (join [newline]
              (filter (\<lambda>l. strip l = [] \<or>
                         \<not> (\<exists>p \<in> set (case map_of ?u ''javascript'' of
                                          None \<Rightarrow> [] | Some ps \<Rightarrow> ps).
                              \<exists>j. matches l p 0 j))
                 (split_on newline ''// note\<newline>x = 1'')))"
    using t' by blast
  have r1: "re_match_model hash_comment_pattern ''# a'' = Inr True"
    using m1 by (simp add: re_match_model_def)
  have r2: "re_match_model hash_comment_pattern ''x = 1'' = Inr False"
    using m2 by (simp add: re_match_model_def)
  show ?thesis
    by (intro conjI sp r1 r2 a b c)
qed

text \<open>
  The claim C2 as it is stated fails: with the pattern \<open>//\<close> configured for a language, the
  line \<open>// note\<close> is not matched as a whole (only its first two characters are), it is not
  blank, and clean_content drops it.
\<close>

theorem prefix_matched_line_is_dropped_counterexample:
  "\<not> re_fullmatch_model (Seq (Lit (CHR ''/'')) (Lit (CHR ''/''))) ''// note'' \<and>
   re_match_model (Seq (Lit (CHR ''/'')) (Lit (CHR ''/''))) ''// note'' = Inr True \<and>
   strip ''// note'' \<noteq> [] \<and>
   split_on newline ''// note\<newline>x = 1'' = [''// note'', ''x = 1''] \<and>
   clean_content re_match_model ''// note\<newline>x = 1'' ''javascript''
       [(''javascript'', [Seq (Lit (CHR ''/'')) (Lit (CHR ''/''))])]
     = Inr ''x = 1''"
proof -
  let ?r = "Seq (Lit (CHR ''/'')) (Lit (CHR ''/''))"
  have e1: "ends ?r ''// note'' 0 = [2]"
    by simp
  have e2: "ends ?r ''x = 1'' 0 = []"
    by simp
  have a: "\<not> re_fullmatch_model ?r ''// note''"
    by (simp add: re_fullmatch_model_def e1)
  have b: "re_match_model ?r ''// note'' = Inr True"
    by (simp add: re_match_model_def e1)
  have b': "re_match_model ?r ''x = 1'' = Inr False"
    by (simp add: re_match_model_def e2)
  have c: "strip ''// note'' \<noteq> []"
    by (simp add: strip_def is_space_def)
  have d: "split_on newline ''// note\<newline>x = 1'' = [''// note'', ''x = 1'']"
    by (simp add: newline_def)
  have f: "clean_content re_match_model ''// note\<newline>x = 1'' ''javascript''
       [(''javascript'', [?r])] = Inr ''x = 1''"
    unfolding clean_content_def d using b b' c by simp
  show ?thesis
    by (intro conjI a b c d f)
qed

end
